theory Spec2Isabelle
  imports Complex_Main
begin

section \<open>Data model\<close>

text \<open>
  MongoDB collections are lists of documents in natural order. Document identifiers
  (ObjectId) are natural numbers, \<open>new Date()\<close> is a natural number handed in by the
  caller. Status fields are the strings the controllers compare against. A field that is
  \<open>null\<close> or missing is \<open>None\<close> where the code does not tell them apart: the
  filter \<open>{technicianId: null}\<close> matches both, and so does a truthiness test. The
  location of a booking is queried with \<open>$exists\<close>, which does tell them apart, so it
  keeps the three cases.
\<close>

type_synonym oid = nat
type_synonym time = nat

record geo =
  g_type :: string
  g_coordinates :: "real list option"

datatype location_field = Absent | IsNull | Located geo

record booking =
  bk_id :: oid
  bk_status :: string
  bk_technicianId :: "oid option"
  bk_assignedAt :: "time option"
  bk_customerId :: "oid option"
  bk_location :: location_field
  bk_createdAt :: time

record broadcast =
  bc_bookingId :: oid
  bc_technicianId :: oid
  bc_status :: string

record kyc =
  kyc_technicianId :: oid
  kyc_verificationStatus :: string
  kyc_bankVerified :: bool

record profile =
  pf_id :: oid
  pf_trainingCompleted :: bool
  pf_workStatus :: string
  pf_isOnline :: bool
  pf_location :: "geo option"
  pf_locality :: "string option"
  pf_address :: "string option"
  pf_city :: "string option"
  pf_state :: "string option"
  pf_pincode :: "string option"
  pf_experienceYears :: "nat option"
  pf_specialization :: "string option"
  pf_skills :: "oid list"
  pf_profileComplete :: bool

record db =
  bookings :: "booking list"
  broadcasts :: "broadcast list"
  kycs :: "kyc list"
  profiles :: "profile list"

section \<open>Collection primitives\<close>

text \<open>\<open>Model.findOne(filter)\<close>: the first document that matches, or \<open>null\<close>.\<close>

definition findOne :: "('a \<Rightarrow> bool) \<Rightarrow> 'a list \<Rightarrow> 'a option" where
  "findOne P xs = find P xs"

text \<open>\<open>Model.find(filter)\<close>: every document that matches.\<close>

definition findAll :: "('a \<Rightarrow> bool) \<Rightarrow> 'a list \<Rightarrow> 'a list" where
  "findAll P xs = filter P xs"

text \<open>\<open>Model.updateOne(filter, update)\<close>: only the first matching document changes.\<close>

fun updateOne :: "('a \<Rightarrow> bool) \<Rightarrow> ('a \<Rightarrow> 'a) \<Rightarrow> 'a list \<Rightarrow> 'a list" where
  "updateOne P f [] = []"
| "updateOne P f (x # xs) = (if P x then f x # xs else x # updateOne P f xs)"

text \<open>\<open>Model.updateMany(filter, update)\<close>: every matching document changes.\<close>

definition updateMany :: "('a \<Rightarrow> bool) \<Rightarrow> ('a \<Rightarrow> 'a) \<Rightarrow> 'a list \<Rightarrow> 'a list" where
  "updateMany P f xs = map (\<lambda>x. if P x then f x else x) xs"

text \<open>
  \<open>Model.findOneAndUpdate(filter, update, {new: true})\<close>: one indivisible
  test-and-set on the first matching document; it returns the document after the update,
  or \<open>null\<close> when nothing matches.
\<close>

definition findOneAndUpdate ::
  "('a \<Rightarrow> bool) \<Rightarrow> ('a \<Rightarrow> 'a) \<Rightarrow> 'a list \<Rightarrow> 'a option \<times> 'a list" where
  "findOneAndUpdate P f xs =
     (case find P xs of
        None \<Rightarrow> (None, xs)
      | Some x \<Rightarrow> (Some (f x), updateOne P f xs))"

text \<open>\<open>TechnicianProfile.findById(id)\<close>.\<close>

definition findById :: "oid \<Rightarrow> profile list \<Rightarrow> profile option" where
  "findById i ps = findOne (\<lambda>p. pf_id p = i) ps"

section \<open>Sessions and transactions\<close>

text \<open>
  \<open>session.startTransaction()\<close> keeps the store as it was; a write that carries the
  session goes to the pending copy only, a write without the session reaches the store at
  once. \<open>abortTransaction\<close> gives the store back, \<open>commitTransaction\<close> installs the
  pending copy.
\<close>

record txn =
  snapshot :: db
  pending :: db

definition startTransaction :: "db \<Rightarrow> txn" where
  "startTransaction d = \<lparr>snapshot = d, pending = d\<rparr>"

definition session_write :: "bool \<Rightarrow> (db \<Rightarrow> db) \<Rightarrow> txn \<Rightarrow> txn" where
  "session_write in_session f t =
     (if in_session then t\<lparr>pending := f (pending t)\<rparr>
      else t\<lparr>snapshot := f (snapshot t), pending := f (pending t)\<rparr>)"

definition abortTransaction :: "txn \<Rightarrow> db" where
  "abortTransaction t = snapshot t"

definition commitTransaction :: "txn \<Rightarrow> db" where
  "commitTransaction t = pending t"

section \<open>Replies, notifications, faults\<close>

text \<open>
  \<open>res.status(c).json({message: m, result: r})\<close>. The message of a 500 reply is the
  text of the exception, which the model does not track.
\<close>

datatype reply = Reply (code: nat) (message: string) (result: "booking option")

datatype notice =
    CustomerJobAccepted oid oid oid
  | JobTaken "oid list" oid

record outcome =
  reply :: reply
  store :: db
  notices :: "notice list"

text \<open>
  Every awaited call on the store may throw. The environment is a predicate on the
  calls of \<open>respondToJob\<close>, true where the call throws.
\<close>

datatype db_op =
    FindActiveJob | CheckActivation | FindBroadcast | FindTechnician | FindOneAndUpdate
  | UpdateOne | FindOthers | UpdateMany | Commit | Notify

text \<open>The run in which no call of the store throws.\<close>

definition no_faults :: "db_op \<Rightarrow> bool" where
  "no_faults op = False"

text \<open>The run in which exactly the given call throws.\<close>

definition only_fault :: "db_op \<Rightarrow> db_op \<Rightarrow> bool" where
  "only_fault x op \<longleftrightarrow> op = x"

definition respond :: "nat \<Rightarrow> string \<Rightarrow> booking option \<Rightarrow> db \<Rightarrow> outcome" where
  "respond c m r d = \<lparr>reply = Reply c m r, store = d, notices = []\<rparr>"

definition serverError :: "db \<Rightarrow> outcome" where
  "serverError d = respond 500 ''err.message'' None d"

section \<open>JavaScript strings\<close>

definition lower_char :: "char \<Rightarrow> char" where
  "lower_char c =
     (case map_of (zip ''ABCDEFGHIJKLMNOPQRSTUVWXYZ'' ''abcdefghijklmnopqrstuvwxyz'') c of
        None \<Rightarrow> c
      | Some l \<Rightarrow> l)"

definition toLowerCase :: "string \<Rightarrow> string" where
  "toLowerCase s = map lower_char s"

text \<open>\<open>a || b\<close> on values that are a string or \<open>undefined\<close>: the empty string is falsy.\<close>

definition js_or :: "string option \<Rightarrow> string option \<Rightarrow> string option" where
  "js_or a b = (case a of None \<Rightarrow> b | Some s \<Rightarrow> if s = [] then b else a)"

definition or_empty :: "string option \<Rightarrow> string" where
  "or_empty a = (case a of None \<Rightarrow> [] | Some s \<Rightarrow> s)"

section \<open>respondToJob (Controllers/technicianBroadcastController.js)\<close>

record request =
  params_id :: oid
  body_status :: "string option"
  body_response :: "string option"
  user_technicianProfileId :: "oid option"
  has_io :: bool

definition active_statuses :: "string list" where
  "active_statuses = [''accepted'', ''on_the_way'', ''reached'', ''in_progress'']"

definition is_active_job_of :: "oid \<Rightarrow> booking \<Rightarrow> bool" where
  "is_active_job_of tid b \<longleftrightarrow>
     bk_technicianId b = Some tid \<and> bk_status b \<in> set active_statuses"

definition is_sent_to :: "oid \<Rightarrow> oid \<Rightarrow> broadcast \<Rightarrow> bool" where
  "is_sent_to jid tid r \<longleftrightarrow>
     bc_bookingId r = jid \<and> bc_technicianId r = tid \<and> bc_status r = ''sent''"

text \<open>The filter of the conditional update.\<close>

definition is_open :: "oid \<Rightarrow> booking \<Rightarrow> bool" where
  "is_open jid b \<longleftrightarrow>
     bk_id b = jid \<and> bk_status b \<in> set [''requested'', ''broadcasted'']
     \<and> bk_technicianId b = None"

definition assign :: "oid \<Rightarrow> time \<Rightarrow> booking \<Rightarrow> booking" where
  "assign tid now b =
     b\<lparr>bk_technicianId := Some tid, bk_status := ''accepted'', bk_assignedAt := Some now\<rparr>"

definition own_row :: "oid \<Rightarrow> oid \<Rightarrow> broadcast \<Rightarrow> bool" where
  "own_row jid tid r \<longleftrightarrow> bc_bookingId r = jid \<and> bc_technicianId r = tid"

definition other_row :: "oid \<Rightarrow> oid \<Rightarrow> broadcast \<Rightarrow> bool" where
  "other_row jid tid r \<longleftrightarrow> bc_bookingId r = jid \<and> bc_technicianId r \<noteq> tid"

definition set_bc_status :: "string \<Rightarrow> broadcast \<Rightarrow> broadcast" where
  "set_bc_status s r = r\<lparr>bc_status := s\<rparr>"

text \<open>The writes of the accept; each of them carries the session.\<close>

definition write_bookings :: "bool \<Rightarrow> (booking list \<Rightarrow> booking list) \<Rightarrow> txn \<Rightarrow> txn" where
  "write_bookings in_session f t =
     session_write in_session (\<lambda>d. d\<lparr>bookings := f (bookings d)\<rparr>) t"

definition write_broadcasts ::
  "bool \<Rightarrow> (broadcast list \<Rightarrow> broadcast list) \<Rightarrow> txn \<Rightarrow> txn" where
  "write_broadcasts in_session f t =
     session_write in_session (\<lambda>d. d\<lparr>broadcasts := f (broadcasts d)\<rparr>) t"

text \<open>The notifications after the commit (\<open>if (req.io) { ... }\<close>).\<close>

definition post_commit :: "request \<Rightarrow> oid \<Rightarrow> booking \<Rightarrow> oid list \<Rightarrow> notice list" where
  "post_commit req tid bk otherTechIds =
     (if has_io req then
        (case bk_customerId bk of
           None \<Rightarrow> []
         | Some c \<Rightarrow> [CustomerJobAccepted c (bk_id bk) tid])
        @ (if otherTechIds \<noteq> [] then [JobTaken otherTechIds (bk_id bk)] else [])
      else [])"

definition respondToJob :: "(db_op \<Rightarrow> bool) \<Rightarrow> time \<Rightarrow> request \<Rightarrow> db \<Rightarrow> outcome" where
  "respondToJob fails now req d =
     (let t = startTransaction d;
          jid = params_id req;
          finalStatus = toLowerCase (or_empty (js_or (body_status req) (body_response req)))
      in
      case user_technicianProfileId req of
        None \<Rightarrow>
          respond 401 ''Unauthorized: Technician profile not found'' None (abortTransaction t)
      | Some tid \<Rightarrow>
          if fails FindActiveJob then serverError (abortTransaction t)
          else if findOne (is_active_job_of tid) (bookings (pending t)) \<noteq> None then
            respond 409 ''You already have an active job. Complete it before accepting a new one.''
              None (abortTransaction t)
          else if fails FindBroadcast then serverError (abortTransaction t)
          else if findOne (is_sent_to jid tid) (broadcasts (pending t)) = None then
            respond 403 ''Job not assigned to you or already closed'' None (abortTransaction t)
          else if finalStatus \<noteq> ''accepted'' \<and> finalStatus \<noteq> ''accept'' then
            respond 400 ''Invalid response status'' None (abortTransaction t)
          else if fails FindOneAndUpdate then serverError (abortTransaction t)
          else
            (case findOneAndUpdate (is_open jid) (assign tid now) (bookings (pending t)) of
              (None, _) \<Rightarrow>
                respond 409 ''Too late! Booking already taken'' None (abortTransaction t)
            | (Some bk, bks) \<Rightarrow>
                let t1 = write_bookings True (\<lambda>_. bks) t in
                if fails UpdateOne then serverError (abortTransaction t1)
                else
                  let t2 = write_broadcasts True
                             (updateOne (own_row jid tid) (set_bc_status ''accepted'')) t1 in
                  if fails FindOthers then serverError (abortTransaction t2)
                  else
                    let otherTechIds =
                          map bc_technicianId
                            (findAll (\<lambda>r. other_row jid tid r \<and> bc_status r = ''sent'')
                               (broadcasts (pending t2))) in
                    if fails UpdateMany then serverError (abortTransaction t2)
                    else
                      let t3 = write_broadcasts True
                                 (updateMany (other_row jid tid) (set_bc_status ''expired'')) t2 in
                      if fails Commit then serverError (abortTransaction t3)
                      else
                        let d' = commitTransaction t3 in
                        if post_commit req tid bk otherTechIds \<noteq> [] \<and> fails Notify
                        then serverError d'
                        else
                          \<lparr>reply = Reply 200 ''Job accepted successfully'' (Some bk),
                           store = d',
                           notices = post_commit req tid bk otherTechIds\<rparr>))"

section \<open>respondToJob (unnamed/part_000)\<close>

text \<open>
  \<open>checkTechnicianActivation\<close> of part_000: KYC approved, bank verified, training
  completed. It reads outside the session and turns an exception into a refusal.
\<close>

definition activation_msg :: string where
  "activation_msg =
     ''Complete KYC, bank verification, and training to activate technician account''"

definition checkTechnicianActivation :: "bool \<Rightarrow> oid option \<Rightarrow> db \<Rightarrow> bool \<times> string" where
  "checkTechnicianActivation throws tid d =
     (if throws then (False, ''error.message'')
      else
        case findOne (\<lambda>k. Some (kyc_technicianId k) = tid) (kycs d) of
          None \<Rightarrow> (False, activation_msg)
        | Some k \<Rightarrow>
            if kyc_verificationStatus k \<noteq> ''approved'' then (False, activation_msg)
            else if \<not> kyc_bankVerified k then (False, activation_msg)
            else
              (case findOne (\<lambda>p. Some (pf_id p) = tid) (profiles d) of
                None \<Rightarrow> (False, activation_msg)
              | Some p \<Rightarrow>
                  if \<not> pf_trainingCompleted p then (False, activation_msg)
                  else (True, ''Technician account is active'')))"

definition is_eligible :: "profile option \<Rightarrow> bool" where
  "is_eligible p \<longleftrightarrow>
     (case p of None \<Rightarrow> False
      | Some t \<Rightarrow> pf_workStatus t = ''approved'' \<and> pf_isOnline t)"

definition respondToJob_part000 ::
  "(db_op \<Rightarrow> bool) \<Rightarrow> time \<Rightarrow> request \<Rightarrow> db \<Rightarrow> outcome" where
  "respondToJob_part000 fails now req d =
     (let t = startTransaction d;
          jid = params_id req;
          activation =
            checkTechnicianActivation (fails CheckActivation) (user_technicianProfileId req)
              (snapshot t)
      in
      if \<not> fst activation then respond 403 (snd activation) None (abortTransaction t)
      else if fails FindBroadcast then serverError (abortTransaction t)
      else
        case user_technicianProfileId req of
          None \<Rightarrow>
            respond 403 ''Job not assigned to this technician'' None (abortTransaction t)
        | Some tid \<Rightarrow>
            if findOne (is_sent_to jid tid) (broadcasts (pending t)) = None then
              respond 403 ''Job not assigned to this technician'' None (abortTransaction t)
            else if fails FindTechnician then serverError (abortTransaction t)
            else if \<not> is_eligible (findById tid (profiles (pending t))) then
              respond 403 ''Technician not eligible for job acceptance'' None
                (abortTransaction t)
            else if fails FindOneAndUpdate then serverError (abortTransaction t)
            else
              (case findOneAndUpdate (is_open jid) (assign tid now) (bookings (pending t)) of
                (None, _) \<Rightarrow> respond 409 ''Booking already taken'' None (abortTransaction t)
              | (Some bk, bks) \<Rightarrow>
                  let t1 = write_bookings True (\<lambda>_. bks) t in
                  if fails UpdateOne then serverError (abortTransaction t1)
                  else
                    let t2 = write_broadcasts True
                               (updateOne (own_row jid tid) (set_bc_status ''accepted'')) t1 in
                    if fails UpdateMany then serverError (abortTransaction t2)
                    else
                      let t3 = write_broadcasts True
                                 (updateMany (other_row jid tid) (set_bc_status ''expired'')) t2
                      in
                      if fails Commit then serverError (abortTransaction t3)
                      else
                        \<lparr>reply = Reply 200 ''Job accepted successfully'' (Some bk),
                         store = commitTransaction t3,
                         notices = []\<rparr>))"

section \<open>JavaScript values in request bodies and queries\<close>

datatype jsnum = Finite real | NaN | PosInfinity | NegInfinity

datatype jsval = JUndefined | JNull | JBool bool | JNumber jsnum | JString string

text \<open>\<open>Boolean(v)\<close>, the truthiness that \<open>if (v)\<close> and \<open>v ? a : b\<close> test.\<close>

fun truthy :: "jsval \<Rightarrow> bool" where
  "truthy JUndefined = False"
| "truthy JNull = False"
| "truthy (JBool b) = b"
| "truthy (JNumber (Finite r)) = (r \<noteq> 0)"
| "truthy (JNumber NaN) = False"
| "truthy (JNumber PosInfinity) = True"
| "truthy (JNumber NegInfinity) = True"
| "truthy (JString s) = (s \<noteq> [])"

text \<open>
  \<open>Number(v)\<close>. The empty string converts to 0; the conversion of the other strings
  is the parameter \<open>StringToNumber\<close>.
\<close>

fun Number :: "(string \<Rightarrow> jsnum) \<Rightarrow> jsval \<Rightarrow> jsnum" where
  "Number StringToNumber JUndefined = NaN"
| "Number StringToNumber JNull = Finite 0"
| "Number StringToNumber (JBool b) = Finite (if b then 1 else 0)"
| "Number StringToNumber (JNumber n) = n"
| "Number StringToNumber (JString s) = (if s = [] then Finite 0 else StringToNumber s)"

fun isFinite :: "jsnum \<Rightarrow> bool" where
  "isFinite (Finite r) = True"
| "isFinite NaN = False"
| "isFinite PosInfinity = False"
| "isFinite NegInfinity = False"

section \<open>Controllers/technician.js\<close>

text \<open>
  The two versions of the file agree on \<open>updateTechnicianStatus\<close> and
  \<open>updateTechnicianTraining\<close> and differ in \<open>updateTechnician\<close>. A reply is the status
  code and the message. The \<open>User\<close> collection, the profile image, the shape of the
  result and the broadcast of pending jobs after a technician went online
  (\<open>broadcastPendingJobsToTechnician\<close>, not among the sources) are left out; a store
  call that throws is not modelled here.
\<close>

type_synonym answer = "nat \<times> string"

definition TECHNICIAN_STATUSES :: "string list" where
  "TECHNICIAN_STATUSES = [''pending'', ''trained'', ''approved'', ''suspended'', ''deleted'']"

text \<open>\<open>technician.save()\<close>: the document with this id is replaced.\<close>

definition save :: "profile \<Rightarrow> db \<Rightarrow> db" where
  "save t d = d\<lparr>profiles := updateOne (\<lambda>p. pf_id p = pf_id t) (\<lambda>_. t) (profiles d)\<rparr>"

subsection \<open>updateTechnicianStatus\<close>

text \<open>\<open>sr_technicianId\<close> is \<open>None\<close> when \<open>isValidObjectId\<close> refuses the id.\<close>

record status_request =
  sr_technicianId :: "oid option"
  sr_trainingCompleted :: jsval
  sr_workStatus :: jsval
  sr_role :: "string option"

definition updateTechnicianStatus :: "status_request \<Rightarrow> db \<Rightarrow> answer \<times> db" where
  "updateTechnicianStatus req d =
     (case sr_technicianId req of
        None \<Rightarrow> ((400, ''Invalid Technician ID''), d)
      | Some technicianId \<Rightarrow>
          if sr_role req \<noteq> Some ''Owner'' then ((403, ''Owner access only''), d)
          else
            (case findById technicianId (profiles d) of
               None \<Rightarrow> ((404, ''Technician not found''), d)
             | Some technician \<Rightarrow>
                 let t1 =
                       (if sr_trainingCompleted req \<noteq> JUndefined then
                          (let t = technician
                                 \<lparr>pf_trainingCompleted := truthy (sr_trainingCompleted req)\<rparr>
                           in if sr_trainingCompleted req = JBool True
                              then t\<lparr>pf_workStatus := ''trained''\<rparr> else t)
                        else technician)
                 in
                 if sr_workStatus req \<noteq> JUndefined then
                   (case sr_workStatus req of
                      JString workStatus \<Rightarrow>
                        if workStatus \<notin> set TECHNICIAN_STATUSES then
                          ((400, ''Invalid workStatus value. Must be: pending, trained, approved, or suspended''), d)
                        else
                          let t2 = t1\<lparr>pf_workStatus := workStatus\<rparr>;
                              t3 = (if workStatus = ''suspended''
                                    then t2\<lparr>pf_isOnline := False\<rparr> else t2)
                          in ((200, ''Technician status updated successfully''), save t3 d)
                    | _ \<Rightarrow>
                        ((400, ''Invalid workStatus value. Must be: pending, trained, approved, or suspended''), d))
                 else ((200, ''Technician status updated successfully''), save t1 d)))"

subsection \<open>updateTechnicianTraining\<close>

record training_request =
  tr_technicianId :: "oid option"
  tr_trainingCompleted :: jsval
  tr_role :: "string option"

definition updateTechnicianTraining :: "training_request \<Rightarrow> db \<Rightarrow> answer \<times> db" where
  "updateTechnicianTraining req d =
     (if tr_role req \<noteq> Some ''Owner'' then ((403, ''Owner access only''), d)
      else
        case tr_technicianId req of
          None \<Rightarrow> ((400, ''Invalid Technician ID''), d)
        | Some technicianId \<Rightarrow>
            (case tr_trainingCompleted req of
               JBool trainingCompleted \<Rightarrow>
                 (case findById technicianId (profiles d) of
                    None \<Rightarrow> ((404, ''Technician not found''), d)
                  | Some technician \<Rightarrow>
                      let t1 = technician\<lparr>pf_trainingCompleted := trainingCompleted\<rparr>;
                          t2 = (if \<not> trainingCompleted \<and> pf_isOnline t1
                                then t1\<lparr>pf_isOnline := False\<rparr> else t1)
                      in ((200, if trainingCompleted
                                then ''Training status updated to completed''
                                else ''Training status updated to incomplete''),
                          save t2 d))
             | _ \<Rightarrow> ((400, ''trainingCompleted must be a boolean value''), d)))"

subsection \<open>updateTechnician\<close>

text \<open>
  \<open>ur_technicianProfileId\<close> is \<open>None\<close> when the id is missing or not a valid
  ObjectId; \<open>ur_isOnline\<close> is \<open>availability?.isOnline\<close>; a field that is \<open>None\<close>
  is \<open>undefined\<close> in the body. An entry of \<open>ur_skills\<close> is the \<open>serviceId\<close> of the
  item, \<open>None\<close> when it is missing or invalid.
\<close>

record update_request =
  ur_technicianProfileId :: "oid option"
  ur_isOnline :: jsval
  ur_location :: "geo option"
  ur_locality :: "string option"
  ur_address :: "string option"
  ur_city :: "string option"
  ur_state :: "string option"
  ur_pincode :: "string option"
  ur_experienceYears :: "nat option"
  ur_specialization :: "string option"
  ur_skills :: "oid option list option"
  ur_profileComplete :: "bool option"

definition validateSkills :: "oid option list option \<Rightarrow> bool" where
  "validateSkills skills =
     (case skills of None \<Rightarrow> True | Some xs \<Rightarrow> list_all (\<lambda>x. x \<noteq> None) xs)"

text \<open>\<open>if (v !== undefined) technician.f = v\<close>.\<close>

definition assign_if_defined :: "'a option \<Rightarrow> 'a option \<Rightarrow> 'a option" where
  "assign_if_defined v old = (case v of None \<Rightarrow> old | Some x \<Rightarrow> Some x)"

definition assign_skills :: "oid option list option \<Rightarrow> oid list \<Rightarrow> oid list" where
  "assign_skills v old = (case v of None \<Rightarrow> old | Some xs \<Rightarrow> List.map_filter (\<lambda>x. x) xs)"

definition update_fields :: "update_request \<Rightarrow> profile \<Rightarrow> profile" where
  "update_fields req t =
     t\<lparr>pf_locality := assign_if_defined (ur_locality req) (pf_locality t),
       pf_address := assign_if_defined (ur_address req) (pf_address t),
       pf_city := assign_if_defined (ur_city req) (pf_city t),
       pf_state := assign_if_defined (ur_state req) (pf_state t),
       pf_pincode := assign_if_defined (ur_pincode req) (pf_pincode t),
       pf_experienceYears := assign_if_defined (ur_experienceYears req) (pf_experienceYears t),
       pf_specialization := assign_if_defined (ur_specialization req) (pf_specialization t)\<rparr>"

definition nonempty :: "string option \<Rightarrow> bool" where
  "nonempty s = (case s of None \<Rightarrow> False | Some x \<Rightarrow> x \<noteq> [])"

definition isComplete :: "profile \<Rightarrow> bool" where
  "isComplete t \<longleftrightarrow>
     nonempty (pf_address t) \<and> nonempty (pf_city t) \<and> nonempty (pf_specialization t)
     \<and> nonempty (pf_locality t) \<and> length (pf_skills t) > 0"

text \<open>\<open>xs.join(sep)\<close>.\<close>

fun join :: "string \<Rightarrow> string list \<Rightarrow> string" where
  "join sep [] = []"
| "join sep [x] = x"
| "join sep (x # y # xs) = x @ sep @ join sep (y # xs)"

definition kyc_approved :: "oid \<Rightarrow> db \<Rightarrow> bool" where
  "kyc_approved tid d =
     (case findOne (\<lambda>k. kyc_technicianId k = tid) (kycs d) of
        None \<Rightarrow> False
      | Some k \<Rightarrow> kyc_verificationStatus k = ''approved'')"

text \<open>
  The first version of the file (lines 500 to 620). The body of \<open>withTransaction\<close>
  either throws, which ends in the 400 reply with nothing saved, or saves the profile.
\<close>

definition updateTechnician :: "update_request \<Rightarrow> db \<Rightarrow> answer \<times> db" where
  "updateTechnician req d =
     (case ur_technicianProfileId req of
        None \<Rightarrow> ((401, ''Unauthorized''), d)
      | Some technicianProfileId \<Rightarrow>
          if \<not> validateSkills (ur_skills req) then ((400, ''Invalid skills format''), d)
          else
            (case findById technicianProfileId (profiles d) of
               None \<Rightarrow> ((404, ''Technician not found''), d)
             | Some technician \<Rightarrow>
                 let t1 = (update_fields req technician)
                            \<lparr>pf_skills := assign_skills (ur_skills req) (pf_skills technician)\<rparr>
                 in
                 if ur_isOnline req \<noteq> JUndefined \<and> truthy (ur_isOnline req)
                    \<and> \<not> pf_trainingCompleted t1 then
                   ((400, ''Training must be completed before going online.''), d)
                 else if ur_isOnline req \<noteq> JUndefined \<and> truthy (ur_isOnline req)
                    \<and> pf_workStatus t1 \<noteq> ''approved'' then
                   ((400, ''Only approved technicians can go online. Current status: ''
                            @ pf_workStatus t1), d)
                 else if ur_isOnline req \<noteq> JUndefined \<and> truthy (ur_isOnline req)
                    \<and> \<not> kyc_approved technicianProfileId d then
                   ((400, ''Your KYC must be approved before going online.''), d)
                 else
                   let t2 = (if ur_isOnline req \<noteq> JUndefined
                             then t1\<lparr>pf_isOnline := truthy (ur_isOnline req)\<rparr> else t1);
                       t3 = t2\<lparr>pf_profileComplete :=
                                  (case ur_profileComplete req of
                                     None \<Rightarrow> isComplete t2
                                   | Some c \<Rightarrow> c)\<rparr>
                   in ((200, ''Technician profile updated successfully''), save t3 d)))"

text \<open>
  Modelled from the spec: \<open>getTechnicianJobEligibility\<close> of
  \<open>Utils/technicianEligibility.js\<close>, which is not among the sources. The spec (4.1) gives
  its checklist and reason codes: KYC approved, bank verified, training completed, work
  status approved, online, no job in an active state; every failing condition is
  reported; a failed lookup counts as not eligible.
\<close>

definition getTechnicianJobEligibility :: "oid \<Rightarrow> db \<Rightarrow> bool \<times> string list" where
  "getTechnicianJobEligibility tid d =
     (let k = findOne (\<lambda>k. kyc_technicianId k = tid) (kycs d);
          p = findById tid (profiles d);
          reasons =
            (if (case k of None \<Rightarrow> False | Some x \<Rightarrow> kyc_verificationStatus x = ''approved'')
             then [] else [''kyc''])
            @ (if (case k of None \<Rightarrow> False | Some x \<Rightarrow> kyc_bankVerified x)
               then [] else [''bank''])
            @ (if (case p of None \<Rightarrow> False | Some x \<Rightarrow> pf_trainingCompleted x)
               then [] else [''training''])
            @ (if (case p of None \<Rightarrow> False | Some x \<Rightarrow> pf_workStatus x = ''approved'')
               then [] else [''work_status''])
            @ (if (case p of None \<Rightarrow> False | Some x \<Rightarrow> pf_isOnline x)
               then [] else [''offline''])
            @ (if findOne (is_active_job_of tid) (bookings d) = None
               then [] else [''active_job''])
      in (reasons = [], reasons))"

text \<open>The second version of the file (lines 1423 to 1580).\<close>

definition updateTechnician_rev2 :: "update_request \<Rightarrow> db \<Rightarrow> answer \<times> db" where
  "updateTechnician_rev2 req d =
     (case ur_technicianProfileId req of
        None \<Rightarrow> ((401, ''Unauthorized''), d)
      | Some technicianProfileId \<Rightarrow>
          (case findById technicianProfileId (profiles d) of
             None \<Rightarrow> ((404, ''Technician not found''), d)
           | Some technician \<Rightarrow>
               let t0 = (update_fields req technician)
                          \<lparr>pf_location := assign_if_defined (ur_location req)
                                            (pf_location technician),
                           pf_profileComplete :=
                             (case ur_profileComplete req of
                                None \<Rightarrow> pf_profileComplete technician
                              | Some c \<Rightarrow> c)\<rparr>
               in
               if ur_skills req \<noteq> None \<and> \<not> validateSkills (ur_skills req) then
                 ((400, ''Invalid skills format''), d)
               else
                 let t1 = t0\<lparr>pf_skills := assign_skills (ur_skills req) (pf_skills t0)\<rparr>;
                     isGoingOnline = truthy (ur_isOnline req);
                     eligibility = getTechnicianJobEligibility technicianProfileId d;
                     barriers = filter (\<lambda>r. r \<noteq> ''offline'') (snd eligibility)
                 in
                 if ur_isOnline req \<noteq> JUndefined \<and> isGoingOnline \<and> \<not> pf_isOnline t1
                    \<and> \<not> fst eligibility \<and> barriers \<noteq> [] then
                   ((403, ''Cannot go online. Requirements not met: '' @ join '', '' barriers), d)
                 else
                   let t2 = (if ur_isOnline req \<noteq> JUndefined
                             then t1\<lparr>pf_isOnline := isGoingOnline\<rparr> else t1)
                   in ((200, ''Technician updated successfully''), save t2 d)))"

section \<open>getMyJobs and getNearbyJobs (unnamed/part_000)\<close>

text \<open>
  The geometry is the store's: \<open>centerSphere c r loc\<close> stands for
  \<open>{$geoWithin: {$centerSphere: [c, r]}}\<close> on a location, with \<open>r\<close> in radians, and
  \<open>geodist (lng, lat) loc\<close> for the distance in meters that \<open>$geoNear\<close> computes on the
  sphere. Which coordinates the server accepts as a point, as the centre of the sphere
  or as \<open>near\<close>, is the predicate \<open>accepts\<close>; with any other the query throws. All
  three are parameters. A listing is the status code, the message and the result. Of the
  store calls only the activation check and the geo query are modelled as throwing;
  population and projection of the result are left out.
\<close>

type_synonym 'a listing = "nat \<times> string \<times> 'a list"

definition sent_bookingIds :: "oid \<Rightarrow> db \<Rightarrow> oid list" where
  "sent_bookingIds tid d =
     map bc_bookingId
       (findAll (\<lambda>r. bc_technicianId r = tid \<and> bc_status r = ''sent'') (broadcasts d))"

text \<open>
  The guard of the geo filter in \<open>getMyJobs\<close>: the technician exists and has a location of
  type \<open>Point\<close> whose coordinates are an array.
\<close>

definition point_array :: "profile option \<Rightarrow> real list option" where
  "point_array technician =
     (case technician of
        None \<Rightarrow> None
      | Some t \<Rightarrow>
          (case pf_location t of
             None \<Rightarrow> None
           | Some loc \<Rightarrow> if g_type loc = ''Point'' then g_coordinates loc else None))"

text \<open>\<open>10000 / 6378100\<close>, commented in the source as 10 km in radians.\<close>

definition myJobs_radius :: real where
  "myJobs_radius = 10000 / 6378100"

text \<open>
  The filter \<open>{$or: [{location: {$exists: false}}, {location: {$geoWithin: ...}}]}\<close>,
  built only when the technician has a point: a booking without the field passes, one
  whose location is \<open>null\<close> matches neither branch.
\<close>

definition geoFilter ::
  "(real list \<Rightarrow> real \<Rightarrow> geo \<Rightarrow> bool) \<Rightarrow> real list option \<Rightarrow> booking \<Rightarrow> bool" where
  "geoFilter centerSphere center b =
     (case center of
        None \<Rightarrow> True
      | Some c \<Rightarrow>
          (case bk_location b of
             Absent \<Rightarrow> True
           | IsNull \<Rightarrow> False
           | Located loc \<Rightarrow> centerSphere c myJobs_radius loc))"

definition getMyJobs ::
  "(real list \<Rightarrow> real \<Rightarrow> geo \<Rightarrow> bool) \<Rightarrow> (real list \<Rightarrow> bool) \<Rightarrow> bool \<Rightarrow> oid option \<Rightarrow> db
   \<Rightarrow> booking listing" where
  "getMyJobs centerSphere accepts throws technicianProfileId d =
     (case technicianProfileId of
        None \<Rightarrow> (401, ''Unauthorized'', [])
      | Some tid \<Rightarrow>
          let activation = checkTechnicianActivation throws (Some tid) d in
          if \<not> fst activation then (200, snd activation, [])
          else
            let bookingIds = sent_bookingIds tid d;
                technician = findById tid (profiles d);
                found =
                  findAll
                    (\<lambda>b. bk_id b \<in> set bookingIds \<and> bk_status b = ''broadcasted''
                          \<and> bk_technicianId b = None
                          \<and> geoFilter centerSphere (point_array technician) b)
                    (bookings d)
            in
            if (case point_array technician of None \<Rightarrow> False | Some c \<Rightarrow> \<not> accepts c)
            then (500, ''err.message'', [])
            else (200, ''Jobs fetched successfully'', rev (sort_key bk_createdAt found)))"

record nearby_request =
  nr_technicianProfileId :: "oid option"
  nr_latitude :: jsval
  nr_longitude :: jsval
  nr_radius :: jsval

text \<open>\<open>coordinates[i]\<close>: \<open>undefined\<close> beyond the end of the array.\<close>

definition element :: "real list \<Rightarrow> nat \<Rightarrow> jsval" where
  "element cs i = (if i < length cs then JNumber (Finite (cs ! i)) else JUndefined)"

text \<open>
  The guard of the fallback in \<open>getNearbyJobs\<close>: the profile exists, has a location with
  coordinates and the type \<open>Point\<close>.
\<close>

definition stored_point :: "profile option \<Rightarrow> real list option" where
  "stored_point techProfile =
     (case techProfile of
        None \<Rightarrow> None
      | Some t \<Rightarrow>
          (case pf_location t of
             None \<Rightarrow> None
           | Some loc \<Rightarrow>
               (case g_coordinates loc of
                  None \<Rightarrow> None
                | Some cs \<Rightarrow> if g_type loc = ''Point'' then Some cs else None)))"

text \<open>
  Lines 234 to 257: the position as \<open>(lng, lat)\<close>, or \<open>None\<close> where the source answers
  400.
\<close>

definition resolve_location ::
  "(string \<Rightarrow> jsnum) \<Rightarrow> jsval \<Rightarrow> jsval \<Rightarrow> profile option \<Rightarrow> (jsval \<times> jsval) option" where
  "resolve_location StringToNumber latitude longitude techProfile =
     (let lat = Number StringToNumber latitude;
          lng = Number StringToNumber longitude
      in
      if \<not> isFinite lat \<or> \<not> isFinite lng then
        (case stored_point techProfile of
           None \<Rightarrow> None
         | Some cs \<Rightarrow> Some (element cs 0, element cs 1))
      else Some (JNumber lng, JNumber lat))"

text \<open>Line 275: \<open>radius ? Number(radius) : 20000\<close>.\<close>

definition maxDist :: "(string \<Rightarrow> jsnum) \<Rightarrow> jsval \<Rightarrow> jsnum" where
  "maxDist StringToNumber radius =
     (if truthy radius then Number StringToNumber radius else Finite 20000)"

text \<open>
  The \<open>$geoNear\<close> stage with \<open>spherical: true\<close>: of the documents that match the query
  and have a location, those at most \<open>maxDistance\<close> meters from \<open>near\<close>, each with its
  distance, nearest first. A document whose location is missing or \<open>null\<close> is not in
  the index and is skipped. The server throws unless \<open>near\<close> is a pair of finite
  numbers that it accepts as a point and \<open>maxDistance\<close> a finite number that is not
  negative.
\<close>

fun geoNear ::
  "(real \<times> real \<Rightarrow> geo \<Rightarrow> real) \<Rightarrow> (real list \<Rightarrow> bool) \<Rightarrow> jsval \<times> jsval \<Rightarrow> jsnum
   \<Rightarrow> (booking \<Rightarrow> bool) \<Rightarrow> booking list \<Rightarrow> (booking \<times> real) list option" where
  "geoNear geodist accepts (JNumber (Finite lng), JNumber (Finite lat)) (Finite m) query docs =
     (if m < 0 \<or> \<not> accepts [lng, lat] then None
      else
        Some (sort_key snd
          (concat (map (\<lambda>b. case bk_location b of
                              Located loc \<Rightarrow>
                                if query b \<and> geodist (lng, lat) loc \<le> m
                                then [(b, geodist (lng, lat) loc)] else []
                            | _ \<Rightarrow> [])
                    docs))))"
| "geoNear geodist accepts near maxDistance query docs = None"

text \<open>Lines 259 to 345: what \<open>getNearbyJobs\<close> does once it has the position.\<close>

definition nearby_search ::
  "(real \<times> real \<Rightarrow> geo \<Rightarrow> real) \<Rightarrow> (real list \<Rightarrow> bool) \<Rightarrow> (string \<Rightarrow> jsnum) \<Rightarrow> jsval
   \<Rightarrow> oid \<Rightarrow> db \<Rightarrow> jsval \<times> jsval \<Rightarrow> (booking \<times> real) listing" where
  "nearby_search geodist accepts StringToNumber radius tid d near =
     (let bookingIds = sent_bookingIds tid d in
      if length bookingIds = 0 then (200, ''No jobs available'', [])
      else
        case geoNear geodist accepts near (maxDist StringToNumber radius)
               (\<lambda>b. bk_id b \<in> set bookingIds \<and> bk_status b = ''broadcasted''
                     \<and> bk_technicianId b = None)
               (bookings d) of
          None \<Rightarrow> (500, ''err.message'', [])
        | Some jobs \<Rightarrow> (200, ''Nearby jobs fetched successfully'', sort_key snd jobs))"

definition getNearbyJobs ::
  "(real \<times> real \<Rightarrow> geo \<Rightarrow> real) \<Rightarrow> (real list \<Rightarrow> bool) \<Rightarrow> (string \<Rightarrow> jsnum) \<Rightarrow> bool
   \<Rightarrow> nearby_request \<Rightarrow> db \<Rightarrow> (booking \<times> real) listing" where
  "getNearbyJobs geodist accepts StringToNumber throws req d =
     (case nr_technicianProfileId req of
        None \<Rightarrow> (401, ''Unauthorized'', [])
      | Some tid \<Rightarrow>
          let activation = checkTechnicianActivation throws (Some tid) d in
          if \<not> fst activation then (200, snd activation, [])
          else
            (case resolve_location StringToNumber (nr_latitude req) (nr_longitude req)
                    (findById tid (profiles d)) of
               None \<Rightarrow>
                 (400, ''Location not found. Please provide latitude/longitude or update your profile location.'', [])
             | Some near \<Rightarrow>
                 nearby_search geodist accepts StringToNumber (nr_radius req) tid d near))"

section \<open>recordBroadcast\<close>

text \<open>
  Modelled from the spec: \<open>recordBroadcast(jobId, technicianIds)\<close> of the broadcast
  ledger, whose code (\<open>Utils/technicianMatching.js\<close>) is not among the sources. The spec
  (3, 4.3, 4.5, 9): the selector creates one row in state \<open>sent\<close> for each matched
  technician; a technician who has a \<open>sent\<close> row for the job gets no second one; rows are
  appended, never deleted, and an expired row is not reactivated.
\<close>

definition recordBroadcast1 :: "oid \<Rightarrow> oid \<Rightarrow> broadcast list \<Rightarrow> broadcast list" where
  "recordBroadcast1 jid tid rows =
     (if findOne (is_sent_to jid tid) rows \<noteq> None then rows
      else rows @ [\<lparr>bc_bookingId = jid, bc_technicianId = tid, bc_status = ''sent''\<rparr>])"

text \<open>
  Modelled from the spec: \<open>recordBroadcast\<close> for a list of technicians records each
  of them in turn.
\<close>

definition recordBroadcast :: "oid \<Rightarrow> oid list \<Rightarrow> db \<Rightarrow> db" where
  "recordBroadcast jid tids d =
     d\<lparr>broadcasts := fold (recordBroadcast1 jid) tids (broadcasts d)\<rparr>"

section \<open>Properties\<close>

subsection \<open>The accept\<close>

text \<open>The store after the three writes of an accept.\<close>

definition accepted_store :: "oid \<Rightarrow> oid \<Rightarrow> time \<Rightarrow> db \<Rightarrow> db" where
  "accepted_store jid tid now d =
     d\<lparr>bookings := updateOne (is_open jid) (assign tid now) (bookings d),
       broadcasts :=
         updateMany (other_row jid tid) (set_bc_status ''expired'')
           (updateOne (own_row jid tid) (set_bc_status ''accepted'') (broadcasts d))\<rparr>"

text \<open>The guards of \<open>respondToJob\<close> pass, in the controller and in part_000.\<close>

definition reaches_atomic_step :: "request \<Rightarrow> db \<Rightarrow> oid \<Rightarrow> bool" where
  "reaches_atomic_step req d tid \<longleftrightarrow>
     user_technicianProfileId req = Some tid
     \<and> findOne (is_active_job_of tid) (bookings d) = None
     \<and> findOne (is_sent_to (params_id req) tid) (broadcasts d) \<noteq> None
     \<and> toLowerCase (or_empty (js_or (body_status req) (body_response req)))
         \<in> {''accepted'', ''accept''}"

definition reaches_atomic_step_part000 :: "request \<Rightarrow> db \<Rightarrow> oid \<Rightarrow> bool" where
  "reaches_atomic_step_part000 req d tid \<longleftrightarrow>
     user_technicianProfileId req = Some tid
     \<and> fst (checkTechnicianActivation False (Some tid) d)
     \<and> findOne (is_sent_to (params_id req) tid) (broadcasts d) \<noteq> None
     \<and> is_eligible (findById tid (profiles d))"

subsection \<open>The ledger\<close>



text \<open>Two rows of the same booking and technician.\<close>

definition same_pair :: "broadcast \<Rightarrow> broadcast \<Rightarrow> bool" where
  "same_pair r x \<longleftrightarrow>
     bc_bookingId x = bc_bookingId r \<and> bc_technicianId x = bc_technicianId r"






text \<open>The \<open>sent\<close> rows of a pair of booking and technician, and their number.\<close>

definition sent_rows :: "oid \<Rightarrow> oid \<Rightarrow> db \<Rightarrow> broadcast list" where
  "sent_rows jid tid d = filter (is_sent_to jid tid) (broadcasts d)"

definition sent_count :: "oid \<Rightarrow> oid \<Rightarrow> broadcast list \<Rightarrow> nat" where
  "sent_count j t rows = length (filter (is_sent_to j t) rows)"

subsection \<open>Going online\<close>

text \<open>
  The account-level conditions of going online: training completed, work status
  \<open>approved\<close>, KYC approved. \<open>went_online\<close>: the technician was offline in the first
  store and is online in the second.
\<close>

definition account_ready :: "oid \<Rightarrow> db \<Rightarrow> bool" where
  "account_ready tid d \<longleftrightarrow>
     (case findById tid (profiles d) of
        None \<Rightarrow> False
      | Some p \<Rightarrow> pf_trainingCompleted p \<and> pf_workStatus p = ''approved'')
     \<and> kyc_approved tid d"

definition is_online :: "oid \<Rightarrow> db \<Rightarrow> bool" where
  "is_online tid d = (case findById tid (profiles d) of None \<Rightarrow> False | Some p \<Rightarrow> pf_isOnline p)"

definition went_online :: "oid \<Rightarrow> db \<Rightarrow> db \<Rightarrow> bool" where
  "went_online tid d d' \<longleftrightarrow> \<not> is_online tid d \<and> is_online tid d'"

section \<open>Example stores and requests\<close>

text \<open>
  Booking 1 is open and was sent to technicians 7 and 8; booking 2 is held by technician
  9. Technician 7 is activated, approved and online; technician 6 is activated and
  approved but offline; technician 8 is suspended, offline and has no KYC record.
\<close>

definition demo_db :: db where
  "demo_db =
     \<lparr>bookings =
        [\<lparr>bk_id = 1, bk_status = ''broadcasted'', bk_technicianId = None,
          bk_assignedAt = None, bk_customerId = Some 50, bk_location = Absent,
          bk_createdAt = 10\<rparr>,
         \<lparr>bk_id = 2, bk_status = ''accepted'', bk_technicianId = Some 9,
          bk_assignedAt = Some 20, bk_customerId = Some 51, bk_location = Absent,
          bk_createdAt = 11\<rparr>],
      broadcasts =
        [\<lparr>bc_bookingId = 1, bc_technicianId = 7, bc_status = ''sent''\<rparr>,
         \<lparr>bc_bookingId = 1, bc_technicianId = 8, bc_status = ''sent''\<rparr>,
         \<lparr>bc_bookingId = 2, bc_technicianId = 9, bc_status = ''accepted''\<rparr>,
         \<lparr>bc_bookingId = 2, bc_technicianId = 7, bc_status = ''expired''\<rparr>],
      kycs =
        [\<lparr>kyc_technicianId = 7, kyc_verificationStatus = ''approved'',
          kyc_bankVerified = True\<rparr>,
         \<lparr>kyc_technicianId = 6, kyc_verificationStatus = ''approved'',
          kyc_bankVerified = True\<rparr>],
      profiles =
        [\<lparr>pf_id = 7, pf_trainingCompleted = True, pf_workStatus = ''approved'',
          pf_isOnline = True, pf_location = None, pf_locality = None, pf_address = None,
          pf_city = None, pf_state = None, pf_pincode = None, pf_experienceYears = None,
          pf_specialization = None, pf_skills = [], pf_profileComplete = False\<rparr>,
         \<lparr>pf_id = 6, pf_trainingCompleted = True, pf_workStatus = ''approved'',
          pf_isOnline = False, pf_location = None, pf_locality = None, pf_address = None,
          pf_city = None, pf_state = None, pf_pincode = None, pf_experienceYears = None,
          pf_specialization = None, pf_skills = [], pf_profileComplete = False\<rparr>,
         \<lparr>pf_id = 8, pf_trainingCompleted = True, pf_workStatus = ''suspended'',
          pf_isOnline = False, pf_location = None, pf_locality = None, pf_address = None,
          pf_city = None, pf_state = None, pf_pincode = None, pf_experienceYears = None,
          pf_specialization = None, pf_skills = [], pf_profileComplete = False\<rparr>]\<rparr>"

text \<open>Technician 7 accepts booking 1; technician 8 does.\<close>

definition demo_req :: request where
  "demo_req =
     \<lparr>params_id = 1, body_status = Some ''Accept'', body_response = None,
      user_technicianProfileId = Some 7, has_io = True\<rparr>"



text \<open>
  As \<open>demo_db\<close>, but technician 7 has two rows for booking 1: an expired one from an
  earlier round, and the sent one that \<open>recordBroadcast\<close> appended after it.
\<close>

definition stale_ledger :: "broadcast list" where
  "stale_ledger =
     [\<lparr>bc_bookingId = 1, bc_technicianId = 7, bc_status = ''expired''\<rparr>,
      \<lparr>bc_bookingId = 1, bc_technicianId = 8, bc_status = ''sent''\<rparr>]"

definition stale_db :: db where
  "stale_db =
     demo_db\<lparr>broadcasts :=
        stale_ledger @ [\<lparr>bc_bookingId = 1, bc_technicianId = 7, bc_status = ''sent''\<rparr>]\<rparr>"

text \<open>Requests to the profile operations.\<close>

definition go_online :: "oid \<Rightarrow> update_request" where
  "go_online tid =
     \<lparr>ur_technicianProfileId = Some tid, ur_isOnline = JBool True, ur_location = None,
      ur_locality = None, ur_address = None, ur_city = None, ur_state = None,
      ur_pincode = None, ur_experienceYears = None, ur_specialization = None,
      ur_skills = None, ur_profileComplete = None\<rparr>"

definition revoke_training_by_status :: status_request where
  "revoke_training_by_status =
     \<lparr>sr_technicianId = Some 7, sr_trainingCompleted = JBool False,
      sr_workStatus = JUndefined, sr_role = Some ''Owner''\<rparr>"

definition revoke_training :: training_request where
  "revoke_training =
     \<lparr>tr_technicianId = Some 7, tr_trainingCompleted = JBool False,
      tr_role = Some ''Owner''\<rparr>"

text \<open>
  A toy geometry: a location is within a sphere when it is its centre, and distances are
  taken on the plane, 111000 meters to the degree. \<open>nan_parser\<close> reads no string as a
  number.
\<close>

definition flat_within :: "real list \<Rightarrow> real \<Rightarrow> geo \<Rightarrow> bool" where
  "flat_within c r loc \<longleftrightarrow> g_coordinates loc = Some c"

definition flat_dist :: "real \<times> real \<Rightarrow> geo \<Rightarrow> real" where
  "flat_dist p loc =
     (case g_coordinates loc of
        Some [x, y] \<Rightarrow> 111000 * (\<bar>x - fst p\<bar> + \<bar>y - snd p\<bar>)
      | _ \<Rightarrow> 0)"

definition nan_parser :: "string \<Rightarrow> jsnum" where
  "nan_parser s = NaN"

text \<open>
  Booking 3 is requested, unassigned, has no location and was sent to technician 7;
  booking 4 is broadcasted and lies at (77, 13), where technician 7 asks from.
\<close>

definition requested_job :: booking where
  "requested_job =
     \<lparr>bk_id = 3, bk_status = ''requested'', bk_technicianId = None, bk_assignedAt = None,
      bk_customerId = Some 52, bk_location = Absent, bk_createdAt = 12\<rparr>"

definition located_job :: booking where
  "located_job =
     \<lparr>bk_id = 4, bk_status = ''broadcasted'', bk_technicianId = None, bk_assignedAt = None,
      bk_customerId = Some 53,
      bk_location = Located \<lparr>g_type = ''Point'', g_coordinates = Some [77, 13]\<rparr>,
      bk_createdAt = 13\<rparr>"

definition geo_db :: db where
  "geo_db =
     demo_db\<lparr>bookings := bookings demo_db @ [requested_job, located_job],
             broadcasts := broadcasts demo_db
               @ [\<lparr>bc_bookingId = 3, bc_technicianId = 7, bc_status = ''sent''\<rparr>,
                  \<lparr>bc_bookingId = 4, bc_technicianId = 7, bc_status = ''sent''\<rparr>]\<rparr>"

definition nearby_req :: nearby_request where
  "nearby_req =
     \<lparr>nr_technicianProfileId = Some 7, nr_latitude = JNumber (Finite 13),
      nr_longitude = JNumber (Finite 77), nr_radius = JUndefined\<rparr>"

text \<open>The points the example server accepts: a longitude and a latitude in range.\<close>

definition in_range :: "real list \<Rightarrow> bool" where
  "in_range c \<longleftrightarrow>
     (case c of
        [lng, lat] \<Rightarrow> - 180 \<le> lng \<and> lng \<le> 180 \<and> - 90 \<le> lat \<and> lat \<le> 90
      | _ \<Rightarrow> False)"

text \<open>
  Booking 5 is broadcasted, unassigned and stored with \<open>location: null\<close>. In
  \<open>home_db\<close> it was sent to technician 7 as well, and the profile of technician 7 has
  the stored point (77, 13).
\<close>

definition null_job :: booking where
  "null_job =
     \<lparr>bk_id = 5, bk_status = ''broadcasted'', bk_technicianId = None, bk_assignedAt = None,
      bk_customerId = Some 54, bk_location = IsNull, bk_createdAt = 14\<rparr>"

definition home_profile :: profile where
  "home_profile =
     \<lparr>pf_id = 7, pf_trainingCompleted = True, pf_workStatus = ''approved'',
      pf_isOnline = True,
      pf_location = Some \<lparr>g_type = ''Point'', g_coordinates = Some [77, 13]\<rparr>,
      pf_locality = None, pf_address = None, pf_city = None, pf_state = None,
      pf_pincode = None, pf_experienceYears = None, pf_specialization = None,
      pf_skills = [], pf_profileComplete = False\<rparr>"

definition home_db :: db where
  "home_db =
     (save home_profile geo_db)
       \<lparr>bookings := bookings geo_db @ [null_job],
        broadcasts := broadcasts geo_db
          @ [\<lparr>bc_bookingId = 5, bc_technicianId = 7, bc_status = ''sent''\<rparr>]\<rparr>"

text \<open>
  The request \<open>?latitude=&longitude=\<close> of technician 7: both coordinates are the empty
  string, no radius.
\<close>

definition blank_req :: nearby_request where
  "blank_req =
     \<lparr>nr_technicianProfileId = Some 7, nr_latitude = JString [],
      nr_longitude = JString [], nr_radius = JUndefined\<rparr>"

section \<open>Proofs\<close>

lemmas txn_defs = startTransaction_def abortTransaction_def commitTransaction_def
  session_write_def write_bookings_def write_broadcasts_def respond_def serverError_def

lemma respondToJob_store_cases:
  "store (respondToJob fails now req d) = d \<or>
   (\<exists>tid. user_technicianProfileId req = Some tid \<and>
      store (respondToJob fails now req d) = accepted_store (params_id req) tid now d \<and>
      findOne (is_sent_to (params_id req) tid) (broadcasts d) \<noteq> None \<and>
      find (is_open (params_id req)) (bookings d) \<noteq> None \<and>
      \<not> fails FindOneAndUpdate \<and> \<not> fails UpdateOne \<and> \<not> fails UpdateMany \<and> \<not> fails Commit)"
  unfolding respondToJob_def Let_def
  by (auto simp: txn_defs findOneAndUpdate_def accepted_store_def
        split: option.splits prod.splits)

lemma respondToJob_200:
  assumes "code (reply (respondToJob fails now req d)) = 200"
  shows "\<exists>tid bk0. user_technicianProfileId req = Some tid \<and>
      find (is_open (params_id req)) (bookings d) = Some bk0 \<and>
      findOne (is_sent_to (params_id req) tid) (broadcasts d) \<noteq> None \<and>
      findOne (is_active_job_of tid) (bookings d) = None \<and>
      result (reply (respondToJob fails now req d)) = Some (assign tid now bk0) \<and>
      store (respondToJob fails now req d) = accepted_store (params_id req) tid now d"
  using assms unfolding respondToJob_def Let_def
  by (auto simp: txn_defs findOneAndUpdate_def accepted_store_def
        split: option.splits prod.splits if_splits)

lemma respondToJob_part000_store_cases:
  "store (respondToJob_part000 fails now req d) = d \<or>
   (\<exists>tid. user_technicianProfileId req = Some tid \<and>
      store (respondToJob_part000 fails now req d) = accepted_store (params_id req) tid now d \<and>
      findOne (is_sent_to (params_id req) tid) (broadcasts d) \<noteq> None \<and>
      find (is_open (params_id req)) (bookings d) \<noteq> None \<and>
      \<not> fails FindOneAndUpdate \<and> \<not> fails UpdateOne \<and> \<not> fails UpdateMany \<and> \<not> fails Commit)"
  unfolding respondToJob_part000_def Let_def
  by (auto simp: txn_defs findOneAndUpdate_def accepted_store_def
        split: option.splits prod.splits)


lemma updateOne_assign_mem:
  "find (is_open jid) bks = Some b0 \<Longrightarrow> assign tid now b0 \<in> set (updateOne (is_open jid) (assign tid now) bks)"
  by (induction bks) (auto split: if_splits)

lemma find_is_open_id: "find (is_open jid) bks = Some b0 \<Longrightarrow> bk_id b0 = jid \<and> b0 \<in> set bks"
  by (induction bks) (auto split: if_splits simp: is_open_def)

lemma updateOne_assign_unique:
  "distinct (map bk_id bks) \<Longrightarrow> find (is_open jid) bks = Some b0 \<Longrightarrow>
   b \<in> set (updateOne (is_open jid) (assign tid now) bks) \<Longrightarrow> bk_id b = jid \<Longrightarrow>
   b = assign tid now b0"
proof (induction bks)
  case Nil
  then show ?case by simp
next
  case (Cons a bks)
  show ?case
  proof (cases "is_open jid a")
    case True
    then have a: "a = b0" "bk_id a = jid" using Cons.prems(2) by (auto simp: is_open_def)
    from Cons.prems(3) True have "b = assign tid now a \<or> b \<in> set bks" by auto
    moreover have "b \<notin> set bks" using Cons.prems(1,4) a by force
    ultimately show ?thesis using a by simp
  next
    case False
    then have f: "find (is_open jid) bks = Some b0" using Cons.prems(2) by simp
    from Cons.prems(3) False have "b = a \<or> b \<in> set (updateOne (is_open jid) (assign tid now) bks)" by auto
    moreover have "b \<noteq> a"
    proof
      assume "b = a"
      then have "bk_id a = jid" using Cons.prems(4) by simp
      moreover have "b0 \<in> set bks" "bk_id b0 = jid" using find_is_open_id[OF f] by auto
      moreover have "bk_id a \<notin> bk_id ` set bks" using Cons.prems(1) by simp
      ultimately show False by (metis imageI)
    qed
    ultimately show ?thesis using Cons.IH f Cons.prems(1,4) by auto
  qed
qed

lemma find_None_ex: "find P xs = None \<longleftrightarrow> \<not> (\<exists>x\<in>set xs. P x)"
  by (auto simp: find_None_iff)

lemma respondToJob_at_atomic_step:
  assumes "\<forall>op. \<not> fails op" and "reaches_atomic_step req d tid"
  shows "(reply (respondToJob fails now req d), store (respondToJob fails now req d)) =
     (case find (is_open (params_id req)) (bookings d) of
        None \<Rightarrow> (Reply 409 ''Too late! Booking already taken'' None, d)
      | Some b0 \<Rightarrow>
          (Reply 200 ''Job accepted successfully'' (Some (assign tid now b0)),
           accepted_store (params_id req) tid now d))"
  using assms unfolding respondToJob_def Let_def reaches_atomic_step_def
  by (auto simp: txn_defs findOneAndUpdate_def accepted_store_def
        split: option.splits prod.splits)

lemma respondToJob_part000_at_atomic_step:
  assumes "\<forall>op. \<not> fails op" and "reaches_atomic_step_part000 req d tid"
  shows "(reply (respondToJob_part000 fails now req d),
          store (respondToJob_part000 fails now req d)) =
     (case find (is_open (params_id req)) (bookings d) of
        None \<Rightarrow> (Reply 409 ''Booking already taken'' None, d)
      | Some b0 \<Rightarrow>
          (Reply 200 ''Job accepted successfully'' (Some (assign tid now b0)),
           accepted_store (params_id req) tid now d))"
  using assms unfolding respondToJob_part000_def Let_def reaches_atomic_step_part000_def
  by (auto simp: txn_defs findOneAndUpdate_def accepted_store_def
        split: option.splits prod.splits)

lemma assigned_after_update:
  assumes "distinct (map bk_id bks)" and "find (is_open jid) bks = Some b0"
  shows "(\<exists>b\<in>set (updateOne (is_open jid) (assign tid now) bks). bk_id b = jid) \<and>
         (\<forall>b\<in>set (updateOne (is_open jid) (assign tid now) bks). bk_id b = jid \<longrightarrow>
            bk_status b = ''accepted'' \<and> bk_technicianId b = Some tid
            \<and> bk_assignedAt b = Some now)"
proof
  have "bk_id (assign tid now b0) = jid"
    using find_is_open_id[OF assms(2)] by (simp add: assign_def)
  then show "\<exists>b\<in>set (updateOne (is_open jid) (assign tid now) bks). bk_id b = jid"
    using updateOne_assign_mem[OF assms(2)] by blast
next
  show "\<forall>b\<in>set (updateOne (is_open jid) (assign tid now) bks). bk_id b = jid \<longrightarrow>
            bk_status b = ''accepted'' \<and> bk_technicianId b = Some tid
            \<and> bk_assignedAt b = Some now"
  proof (intro ballI impI)
    fix b assume "b \<in> set (updateOne (is_open jid) (assign tid now) bks)" "bk_id b = jid"
    then have "b = assign tid now b0" using updateOne_assign_unique assms by blast
    then show "bk_status b = ''accepted'' \<and> bk_technicianId b = Some tid
            \<and> bk_assignedAt b = Some now" by (simp add: assign_def)
  qed
qed

subsection \<open>The example store\<close>

lemma demo_distinct: "distinct (map bk_id (bookings demo_db))"
  by (simp add: demo_db_def)

lemma demo_reaches: "reaches_atomic_step demo_req demo_db 7"
  by (simp add: reaches_atomic_step_def demo_req_def demo_db_def findOne_def
        is_active_job_of_def is_sent_to_def active_statuses_def js_or_def or_empty_def
        toLowerCase_def lower_char_def)

lemma demo_reaches_part000: "reaches_atomic_step_part000 demo_req demo_db 7"
  by (simp add: reaches_atomic_step_part000_def demo_req_def demo_db_def findOne_def
        is_sent_to_def checkTechnicianActivation_def is_eligible_def findById_def)

lemma demo_open:
  "\<exists>b\<in>set (bookings demo_db). bk_id b = params_id demo_req
     \<and> bk_status b \<in> {''requested'', ''broadcasted''} \<and> bk_technicianId b = None"
  by (simp add: demo_req_def demo_db_def)

lemma demo_find_open: "find (is_open (params_id demo_req)) (bookings demo_db) \<noteq> None"
  by (simp add: demo_req_def demo_db_def is_open_def)

lemma demo_accept: "code (reply (respondToJob no_faults 100 demo_req demo_db)) = 200"
proof -
  have "\<forall>op. \<not> no_faults op" by (simp add: no_faults_def)
  from respondToJob_at_atomic_step[OF this demo_reaches, of 100] demo_find_open
  show ?thesis by (auto split: option.splits)
qed

subsection \<open>C1: the conditional update\<close>

text \<open>
  Claim C1. A call of \<open>respondToJob\<close> that passes the guards, in a run where no store
  call throws, assigns the job exactly when the store holds a booking with the requested
  id whose status is \<open>requested\<close> or \<open>broadcasted\<close> and whose technician is unset. In
  that case the reply is 200 and the booking with that id has status \<open>accepted\<close>, the
  calling technician and \<open>assignedAt = now\<close>. Otherwise the reply is the 409
  already-taken reply and the store is unchanged. This holds for the controller and for
  the version in part_000; booking ids are unique, as \<open>_id\<close> is in a collection.
\<close>

theorem respondToJob_conditional_update:
  assumes "\<forall>op. \<not> fails op" and "distinct (map bk_id (bookings d))"
  shows
    "(reaches_atomic_step req d tid \<longrightarrow>
       (if \<exists>b\<in>set (bookings d). bk_id b = params_id req
              \<and> bk_status b \<in> {''requested'', ''broadcasted''} \<and> bk_technicianId b = None
        then code (reply (respondToJob fails now req d)) = 200
          \<and> (\<exists>b\<in>set (bookings (store (respondToJob fails now req d))). bk_id b = params_id req)
          \<and> (\<forall>b\<in>set (bookings (store (respondToJob fails now req d))).
                bk_id b = params_id req \<longrightarrow>
                bk_status b = ''accepted'' \<and> bk_technicianId b = Some tid
                \<and> bk_assignedAt b = Some now)
        else reply (respondToJob fails now req d)
               = Reply 409 ''Too late! Booking already taken'' None
          \<and> store (respondToJob fails now req d) = d))
     \<and> (reaches_atomic_step_part000 req d tid \<longrightarrow>
       (if \<exists>b\<in>set (bookings d). bk_id b = params_id req
              \<and> bk_status b \<in> {''requested'', ''broadcasted''} \<and> bk_technicianId b = None
        then code (reply (respondToJob_part000 fails now req d)) = 200
          \<and> (\<exists>b\<in>set (bookings (store (respondToJob_part000 fails now req d))).
                bk_id b = params_id req)
          \<and> (\<forall>b\<in>set (bookings (store (respondToJob_part000 fails now req d))).
                bk_id b = params_id req \<longrightarrow>
                bk_status b = ''accepted'' \<and> bk_technicianId b = Some tid
                \<and> bk_assignedAt b = Some now)
        else reply (respondToJob_part000 fails now req d)
               = Reply 409 ''Booking already taken'' None
          \<and> store (respondToJob_part000 fails now req d) = d))"
proof -
  let ?open = "\<exists>b\<in>set (bookings d). bk_id b = params_id req
              \<and> bk_status b \<in> {''requested'', ''broadcasted''} \<and> bk_technicianId b = None"
  have open_iff: "?open \<longleftrightarrow> find (is_open (params_id req)) (bookings d) \<noteq> None"
    by (simp add: find_None_ex is_open_def)
  show ?thesis
  proof (cases "find (is_open (params_id req)) (bookings d)")
    case None
    then have n: "\<not> ?open" using open_iff by simp
    have a: "reply (respondToJob fails now req d)
               = Reply 409 ''Too late! Booking already taken'' None
             \<and> store (respondToJob fails now req d) = d"
      if "reaches_atomic_step req d tid"
      using respondToJob_at_atomic_step[OF assms(1) that, of now] None by simp
    have b: "reply (respondToJob_part000 fails now req d)
               = Reply 409 ''Booking already taken'' None
             \<and> store (respondToJob_part000 fails now req d) = d"
      if "reaches_atomic_step_part000 req d tid"
      using respondToJob_part000_at_atomic_step[OF assms(1) that, of now] None by simp
    show ?thesis
      unfolding if_not_P[OF n] using a b by blast
  next
    case (Some b0)
    then have y: "?open" using open_iff by simp
    note asg = assigned_after_update[OF assms(2) Some, of tid now]
    have a: "code (reply (respondToJob fails now req d)) = 200 \<and>
             bookings (store (respondToJob fails now req d))
               = updateOne (is_open (params_id req)) (assign tid now) (bookings d)"
      if "reaches_atomic_step req d tid"
      using respondToJob_at_atomic_step[OF assms(1) that, of now] Some
      by (simp add: accepted_store_def)
    have b: "code (reply (respondToJob_part000 fails now req d)) = 200 \<and>
             bookings (store (respondToJob_part000 fails now req d))
               = updateOne (is_open (params_id req)) (assign tid now) (bookings d)"
      if "reaches_atomic_step_part000 req d tid"
      using respondToJob_part000_at_atomic_step[OF assms(1) that, of now] Some
      by (simp add: accepted_store_def)
    show ?thesis
      unfolding if_P[OF y] using a b asg by simp
  qed
qed

theorem respondToJob_conditional_update_witness:
  "(\<forall>op. \<not> no_faults op)
   \<and> distinct (map bk_id (bookings demo_db))
   \<and> reaches_atomic_step demo_req demo_db 7
   \<and> reaches_atomic_step_part000 demo_req demo_db 7
   \<and> code (reply (respondToJob no_faults 100 demo_req demo_db)) = 200
   \<and> code (reply (respondToJob_part000 no_faults 100 demo_req demo_db)) = 200"
proof -
  have h1: "\<forall>op. \<not> no_faults op" by (simp add: no_faults_def)
  note c = respondToJob_conditional_update[OF h1 demo_distinct, of demo_req 7 100,
      unfolded if_P[OF demo_open]]
  from c demo_reaches demo_reaches_part000 show ?thesis using h1 demo_distinct by blast
qed


subsection \<open>The ledger after an accept\<close>














subsection \<open>The invariant\<close>




lemma same_pair_set_status [simp]:
  "same_pair (set_bc_status s r) x = same_pair r x"
  "same_pair r (set_bc_status s x) = same_pair r x"
  by (simp_all add: same_pair_def set_bc_status_def)




















subsection \<open>A ledger with a stale row\<close>

lemma stale_db_recorded:
  "stale_db = recordBroadcast 1 [7] (demo_db\<lparr>broadcasts := stale_ledger\<rparr>)"
  by (simp add: stale_db_def stale_ledger_def recordBroadcast_def recordBroadcast1_def
        findOne_def is_sent_to_def)











subsection \<open>C2: one accepted row\<close>





subsection \<open>Faults\<close>

lemma respondToJob_fault_unchanged:
  assumes "fails FindActiveJob \<or> fails FindBroadcast \<or> fails FindOneAndUpdate
           \<or> fails UpdateOne \<or> fails FindOthers \<or> fails UpdateMany \<or> fails Commit"
  shows "store (respondToJob fails now req d) = d
         \<and> code (reply (respondToJob fails now req d)) \<noteq> 200"
  using assms unfolding respondToJob_def Let_def
  by (auto simp: txn_defs findOneAndUpdate_def split: option.splits prod.splits)

lemma respondToJob_part000_fault_unchanged:
  assumes "fails CheckActivation \<or> fails FindBroadcast \<or> fails FindTechnician
           \<or> fails FindOneAndUpdate \<or> fails UpdateOne \<or> fails UpdateMany \<or> fails Commit"
  shows "store (respondToJob_part000 fails now req d) = d
         \<and> code (reply (respondToJob_part000 fails now req d)) \<noteq> 200"
  using assms unfolding respondToJob_part000_def Let_def
  by (auto simp: txn_defs findOneAndUpdate_def checkTechnicianActivation_def
        split: option.splits prod.splits)

subsection \<open>C3: all or nothing\<close>

text \<open>
  Claim C3. Whatever calls of the store throw, \<open>respondToJob\<close> leaves either the store
  it found or the store with all three writes of the accept applied: the booking assigned,
  the row of the technician accepted and the rows of the others expired. When any call up
  to and including the commit throws, the store is the one it found and the reply is not
  a success. Both versions; the three writes carry the session, and every path that does
  not commit aborts.
\<close>

theorem accept_all_or_nothing:
  "(store (respondToJob fails now req d) = d
      \<or> (\<exists>tid. user_technicianProfileId req = Some tid
            \<and> store (respondToJob fails now req d)
                = accepted_store (params_id req) tid now d))
   \<and> (fails FindActiveJob \<or> fails FindBroadcast \<or> fails FindOneAndUpdate
        \<or> fails UpdateOne \<or> fails FindOthers \<or> fails UpdateMany \<or> fails Commit
       \<longrightarrow> store (respondToJob fails now req d) = d
           \<and> code (reply (respondToJob fails now req d)) \<noteq> 200)
   \<and> (store (respondToJob_part000 fails now req d) = d
      \<or> (\<exists>tid. user_technicianProfileId req = Some tid
            \<and> store (respondToJob_part000 fails now req d)
                = accepted_store (params_id req) tid now d))
   \<and> (fails CheckActivation \<or> fails FindBroadcast \<or> fails FindTechnician
        \<or> fails FindOneAndUpdate \<or> fails UpdateOne \<or> fails UpdateMany \<or> fails Commit
       \<longrightarrow> store (respondToJob_part000 fails now req d) = d
           \<and> code (reply (respondToJob_part000 fails now req d)) \<noteq> 200)"
  using respondToJob_store_cases[of fails now req d]
    respondToJob_part000_store_cases[of fails now req d]
    respondToJob_fault_unchanged[of fails now req d]
    respondToJob_part000_fault_unchanged[of fails now req d]
  by blast

theorem accept_all_or_nothing_witness:
  "(only_fault UpdateMany) UpdateMany
   \<and> store (respondToJob (only_fault UpdateMany) 100 demo_req demo_db) = demo_db
   \<and> store (respondToJob_part000 (only_fault UpdateMany) 100 demo_req demo_db) = demo_db
   \<and> store (respondToJob no_faults 100 demo_req demo_db) \<noteq> demo_db"
proof -
  have h: "(only_fault UpdateMany) UpdateMany" by (simp add: only_fault_def)
  have chg: "store (respondToJob no_faults 100 demo_req demo_db) \<noteq> demo_db"
  proof
    assume e: "store (respondToJob no_faults 100 demo_req demo_db) = demo_db"
    from respondToJob_200[OF demo_accept] have
      "bookings (store (respondToJob no_faults 100 demo_req demo_db))
       = updateOne (is_open (params_id demo_req)) (assign 7 100) (bookings demo_db)"
      by (auto simp: accepted_store_def demo_req_def)
    then show False unfolding e
      by (simp add: demo_db_def demo_req_def is_open_def assign_def)
  qed
  show ?thesis
    using accept_all_or_nothing[of "only_fault UpdateMany" 100 demo_req demo_db] h chg
    by blast
qed

subsection \<open>Guards\<close>












subsection \<open>C4: the guards before the conditional update\<close>








subsection \<open>Profiles\<close>

lemma findById_id: "findById i ps = Some p \<Longrightarrow> pf_id p = i"
  by (induction ps) (auto simp: findById_def findOne_def split: if_splits)

lemma find_updateOne_same:
  "find P xs = Some x \<Longrightarrow> P (f x) \<Longrightarrow> find P (updateOne P f xs) = Some (f x)"
  by (induction xs) (auto split: if_splits)

lemma find_updateOne_other:
  "(\<And>x. P x \<Longrightarrow> \<not> Q x \<and> \<not> Q (f x)) \<Longrightarrow> find Q (updateOne P f xs) = find Q xs"
  by (induction xs) auto

lemma findById_save_same:
  assumes "findById i (profiles d) = Some p" and "pf_id t = i"
  shows "findById i (profiles (save t d)) = Some t"
  using assms find_updateOne_same[of "\<lambda>p. pf_id p = i" "profiles d" p "\<lambda>_. t"]
  by (simp add: save_def findById_def findOne_def)

lemma findById_save_other:
  assumes "pf_id t \<noteq> j"
  shows "findById j (profiles (save t d)) = findById j (profiles d)"
  using assms find_updateOne_other[of "\<lambda>p. pf_id p = pf_id t" "\<lambda>p. pf_id p = j" "\<lambda>_. t" "profiles d"]
  by (simp add: save_def findById_def findOne_def)

lemma save_keeps_kycs [simp]: "kycs (save t d) = kycs d" "bookings (save t d) = bookings d"
  by (simp_all add: save_def)

lemma pf_id_update_fields [simp]: "pf_id (update_fields req t) = pf_id t"
  by (simp add: update_fields_def)

lemma flags_update_fields [simp]:
  "pf_isOnline (update_fields req t) = pf_isOnline t"
  "pf_trainingCompleted (update_fields req t) = pf_trainingCompleted t"
  "pf_workStatus (update_fields req t) = pf_workStatus t"
  by (simp_all add: update_fields_def)

lemma updateTechnician_shape:
  assumes "ur_technicianProfileId req = Some tid" and "findById tid (profiles d) = Some p"
  shows "snd (updateTechnician req d) = d \<and> fst (fst (updateTechnician req d)) \<noteq> 200
         \<or> (\<exists>t. snd (updateTechnician req d) = save t d \<and> pf_id t = tid
               \<and> fst (fst (updateTechnician req d)) = 200
               \<and> pf_isOnline t = (if ur_isOnline req = JUndefined then pf_isOnline p
                                   else truthy (ur_isOnline req))
               \<and> (truthy (ur_isOnline req) \<longrightarrow> account_ready tid d))"
  using assms findById_id[OF assms(2)]
  unfolding updateTechnician_def Let_def account_ready_def
  by auto

lemma barriers_empty_ready:
  assumes "fst (getTechnicianJobEligibility tid d)
           \<or> filter (\<lambda>r. r \<noteq> ''offline'') (snd (getTechnicianJobEligibility tid d)) = []"
  shows "account_ready tid d"
  using assms
  unfolding getTechnicianJobEligibility_def Let_def account_ready_def kyc_approved_def
  by (auto split: option.splits if_splits)

lemma updateTechnician_rev2_shape:
  assumes "ur_technicianProfileId req = Some tid" and "findById tid (profiles d) = Some p"
  shows "snd (updateTechnician_rev2 req d) = d \<and> fst (fst (updateTechnician_rev2 req d)) \<noteq> 200
         \<or> (\<exists>t. snd (updateTechnician_rev2 req d) = save t d \<and> pf_id t = tid
               \<and> fst (fst (updateTechnician_rev2 req d)) = 200
               \<and> pf_isOnline t = (if ur_isOnline req = JUndefined then pf_isOnline p
                                   else truthy (ur_isOnline req))
               \<and> (truthy (ur_isOnline req) \<and> \<not> pf_isOnline p \<longrightarrow> account_ready tid d))"
proof -
  let ?e = "getTechnicianJobEligibility tid d"
  let ?b = "filter (\<lambda>r. r \<noteq> ''offline'') (snd ?e)"
  have r: "account_ready tid d" if "fst ?e \<or> ?b = []"
    using barriers_empty_ready[OF that] .
  show ?thesis
    using assms findById_id[OF assms(2)] r
    unfolding updateTechnician_rev2_def Let_def
    by auto
qed

lemma is_online_save:
  assumes "findById tid (profiles d) = Some p" and "pf_id t = tid"
  shows "is_online j (save t d) = (if j = tid then pf_isOnline t else is_online j d)"
  using findById_save_same[OF assms] findById_save_other[of t j d] assms(2)
  by (auto simp: is_online_def)

lemma updateTechnician_went_online:
  assumes "went_online j d (snd (updateTechnician req d))"
  shows "account_ready j d"
proof (cases "\<exists>tid p. ur_technicianProfileId req = Some tid \<and> findById tid (profiles d) = Some p")
  case True
  then obtain tid p where tp: "ur_technicianProfileId req = Some tid"
      "findById tid (profiles d) = Some p" by blast
  from updateTechnician_shape[OF tp] show ?thesis
  proof (elim disjE exE conjE)
    assume "snd (updateTechnician req d) = d"
    then show ?thesis using assms by (simp add: went_online_def)
  next
    fix t assume t: "snd (updateTechnician req d) = save t d" "pf_id t = tid"
      "pf_isOnline t = (if ur_isOnline req = JUndefined then pf_isOnline p
                        else truthy (ur_isOnline req))"
      "truthy (ur_isOnline req) \<longrightarrow> account_ready tid d"
    from assms have w: "\<not> is_online j d" "is_online j (save t d)"
      unfolding t(1) by (simp_all add: went_online_def)
    have j: "j = tid" using w is_online_save[OF tp(2) t(2), of j] by (auto split: if_splits)
    have "pf_isOnline t" "\<not> pf_isOnline p"
      using w is_online_save[OF tp(2) t(2), of j] j tp(2) by (auto simp: is_online_def)
    then show ?thesis using t(3,4) j by (auto split: if_splits)
  qed
next
  case False
  then have "snd (updateTechnician req d) = d"
    unfolding updateTechnician_def by (auto split: option.splits)
  then show ?thesis using assms by (simp add: went_online_def)
qed

lemma updateTechnician_rev2_went_online:
  assumes "went_online j d (snd (updateTechnician_rev2 req d))"
  shows "account_ready j d"
proof (cases "\<exists>tid p. ur_technicianProfileId req = Some tid \<and> findById tid (profiles d) = Some p")
  case True
  then obtain tid p where tp: "ur_technicianProfileId req = Some tid"
      "findById tid (profiles d) = Some p" by blast
  from updateTechnician_rev2_shape[OF tp] show ?thesis
  proof (elim disjE exE conjE)
    assume "snd (updateTechnician_rev2 req d) = d"
    then show ?thesis using assms by (simp add: went_online_def)
  next
    fix t assume t: "snd (updateTechnician_rev2 req d) = save t d" "pf_id t = tid"
      "pf_isOnline t = (if ur_isOnline req = JUndefined then pf_isOnline p
                        else truthy (ur_isOnline req))"
      "truthy (ur_isOnline req) \<and> \<not> pf_isOnline p \<longrightarrow> account_ready tid d"
    from assms have w: "\<not> is_online j d" "is_online j (save t d)"
      unfolding t(1) by (simp_all add: went_online_def)
    have j: "j = tid" using w is_online_save[OF tp(2) t(2), of j] by (auto split: if_splits)
    have "pf_isOnline t" "\<not> pf_isOnline p"
      using w is_online_save[OF tp(2) t(2), of j] j tp(2) by (auto simp: is_online_def)
    then show ?thesis using t(3,4) j by (auto split: if_splits)
  qed
next
  case False
  then have "snd (updateTechnician_rev2 req d) = d"
    unfolding updateTechnician_rev2_def by (auto split: option.splits)
  then show ?thesis using assms by (simp add: went_online_def)
qed

lemma updateTechnician_rejects:
  assumes "truthy (ur_isOnline req)" and "ur_technicianProfileId req = Some tid"
    and "findById tid (profiles d) \<noteq> None" and "\<not> account_ready tid d"
  shows "fst (fst (updateTechnician req d)) = 400 \<and> snd (updateTechnician req d) = d"
proof -
  from assms(3) obtain p where p: "findById tid (profiles d) = Some p" by auto
  from updateTechnician_shape[OF assms(2) p] assms(1,4)
  have u: "snd (updateTechnician req d) = d" by auto
  have "fst (fst (updateTechnician req d)) = 400"
    using assms p unfolding updateTechnician_def Let_def account_ready_def
    by auto
  then show ?thesis using u by simp
qed

lemma updateTechnician_rev2_rejects:
  assumes "truthy (ur_isOnline req)" and "ur_technicianProfileId req = Some tid"
    and "findById tid (profiles d) \<noteq> None" and "\<not> is_online tid d"
    and "\<not> account_ready tid d"
  shows "fst (fst (updateTechnician_rev2 req d)) \<in> {400, 403}
         \<and> snd (updateTechnician_rev2 req d) = d"
proof -
  from assms(3) obtain p where p: "findById tid (profiles d) = Some p" by auto
  have off: "\<not> pf_isOnline p" using assms(4) p by (simp add: is_online_def)
  from updateTechnician_rev2_shape[OF assms(2) p] assms(1,5) off
  have u: "snd (updateTechnician_rev2 req d) = d" by auto
  have r: "\<not> fst (getTechnicianJobEligibility tid d)"
      "filter (\<lambda>r. r \<noteq> ''offline'') (snd (getTechnicianJobEligibility tid d)) \<noteq> []"
    using barriers_empty_ready[of tid d] assms(5) by auto
  have "fst (fst (updateTechnician_rev2 req d)) \<in> {400, 403}"
    using assms(1,2) p off r unfolding updateTechnician_rev2_def Let_def
    by auto
  then show ?thesis using u by simp
qed

subsection \<open>C7: going online\<close>

text \<open>
  Claim C7. Whenever \<open>updateTechnician\<close>, in either version of the file, leaves a
  technician online who was offline before, that technician had completed the training,
  had work status \<open>approved\<close> and an approved KYC in the store the call found. A request
  to go online by a technician for whom one of the three fails is refused (400 in the first
  version; 403, or 400 for malformed skills, in the second) and the store, with the flag,
  stays as it was.
\<close>

theorem online_only_when_ready:
  "(went_online j d (snd (updateTechnician req d)) \<longrightarrow> account_ready j d)
   \<and> (went_online j d (snd (updateTechnician_rev2 req d)) \<longrightarrow> account_ready j d)
   \<and> (truthy (ur_isOnline req) \<and> ur_technicianProfileId req = Some tid
        \<and> findById tid (profiles d) \<noteq> None \<and> \<not> account_ready tid d \<longrightarrow>
        fst (fst (updateTechnician req d)) = 400 \<and> snd (updateTechnician req d) = d)
   \<and> (truthy (ur_isOnline req) \<and> ur_technicianProfileId req = Some tid
        \<and> findById tid (profiles d) \<noteq> None \<and> \<not> is_online tid d
        \<and> \<not> account_ready tid d \<longrightarrow>
        fst (fst (updateTechnician_rev2 req d)) \<in> {400, 403}
        \<and> snd (updateTechnician_rev2 req d) = d)"
  using updateTechnician_went_online[of j d req] updateTechnician_rev2_went_online[of j d req]
    updateTechnician_rejects[of req tid d] updateTechnician_rev2_rejects[of req tid d]
  by blast

lemmas demo_eval = demo_db_def go_online_def findById_def findOne_def is_online_def
  account_ready_def kyc_approved_def went_online_def save_def update_fields_def
  assign_if_defined_def assign_skills_def validateSkills_def isComplete_def nonempty_def

lemma demo6_went_online: "went_online 6 demo_db (snd (updateTechnician (go_online 6) demo_db))"
  by (simp add: updateTechnician_def Let_def demo_eval)

lemma demo6_went_online_rev2:
  "went_online 6 demo_db (snd (updateTechnician_rev2 (go_online 6) demo_db))"
  by (simp add: updateTechnician_rev2_def getTechnicianJobEligibility_def Let_def
        is_active_job_of_def active_statuses_def demo_eval)

lemma demo8_not_ready:
  "truthy (ur_isOnline (go_online 8)) \<and> ur_technicianProfileId (go_online 8) = Some 8
   \<and> findById 8 (profiles demo_db) \<noteq> None \<and> \<not> is_online 8 demo_db
   \<and> \<not> account_ready 8 demo_db"
  by (simp add: demo_eval)

theorem online_only_when_ready_witness:
  "went_online 6 demo_db (snd (updateTechnician (go_online 6) demo_db))
   \<and> went_online 6 demo_db (snd (updateTechnician_rev2 (go_online 6) demo_db))
   \<and> account_ready 6 demo_db
   \<and> truthy (ur_isOnline (go_online 8)) \<and> ur_technicianProfileId (go_online 8) = Some 8
   \<and> findById 8 (profiles demo_db) \<noteq> None \<and> \<not> is_online 8 demo_db
   \<and> \<not> account_ready 8 demo_db
   \<and> fst (fst (updateTechnician (go_online 8) demo_db)) = 400
   \<and> snd (updateTechnician (go_online 8) demo_db) = demo_db
   \<and> fst (fst (updateTechnician_rev2 (go_online 8) demo_db)) \<in> {400, 403}
   \<and> snd (updateTechnician_rev2 (go_online 8) demo_db) = demo_db"
  using online_only_when_ready[of 6 demo_db "go_online 6" 6]
    online_only_when_ready[of 8 demo_db "go_online 8" 8]
    demo6_went_online demo6_went_online_rev2 demo8_not_ready
  by blast

lemma suspended_forces_offline:
  assumes "sr_workStatus req = JString ''suspended''" and "sr_technicianId req = Some tid"
    and "fst (fst (updateTechnicianStatus req d)) = 200"
  shows "\<not> is_online tid (snd (updateTechnicianStatus req d))"
proof -
  from assms obtain p where p: "findById tid (profiles d) = Some p"
    unfolding updateTechnicianStatus_def by (auto split: option.splits if_splits)
  have i: "pf_id p = tid" using findById_id[OF p] .
  show ?thesis
    using assms p i unfolding updateTechnicianStatus_def Let_def
    by (auto simp: is_online_save[OF p] TECHNICIAN_STATUSES_def split: if_splits)
qed

lemma training_revoked_forces_offline:
  assumes "tr_trainingCompleted req = JBool False" and "tr_technicianId req = Some tid"
    and "fst (fst (updateTechnicianTraining req d)) = 200"
  shows "\<not> is_online tid (snd (updateTechnicianTraining req d))"
proof -
  from assms obtain p where p: "findById tid (profiles d) = Some p"
    unfolding updateTechnicianTraining_def by (auto split: option.splits if_splits)
  have i: "pf_id p = tid" using findById_id[OF p] .
  show ?thesis
    using assms p i unfolding updateTechnicianTraining_def Let_def
    by (auto simp: is_online_save[OF p] split: if_splits)
qed

subsection \<open>C10: revoking a condition\<close>

text \<open>
  Claim C10 at the input where it fails: the owner sets \<open>trainingCompleted\<close> to
  \<open>false\<close> through \<open>updateTechnicianStatus\<close> for technician 7, who is online. The
  call succeeds, the training flag is false and the technician is still online. The same
  change through \<open>updateTechnicianTraining\<close> forces the technician offline.
\<close>

theorem status_update_leaves_online:
  "is_online 7 demo_db
   \<and> fst (fst (updateTechnicianStatus revoke_training_by_status demo_db)) = 200
   \<and> map_option pf_trainingCompleted
        (findById 7 (profiles (snd (updateTechnicianStatus revoke_training_by_status demo_db))))
       = Some False
   \<and> is_online 7 (snd (updateTechnicianStatus revoke_training_by_status demo_db))
   \<and> fst (fst (updateTechnicianTraining revoke_training demo_db)) = 200
   \<and> \<not> is_online 7 (snd (updateTechnicianTraining revoke_training demo_db))"
  by (simp add: updateTechnicianStatus_def updateTechnicianTraining_def Let_def
        revoke_training_by_status_def revoke_training_def demo_eval)


subsection \<open>Listings\<close>

lemma nearby_search_code: "fst (nearby_search g acc S radius tid d near) \<in> {200, 500}"
  unfolding nearby_search_def Let_def by (auto split: option.splits)

lemma getNearbyJobs_resolution:
  assumes "nr_technicianProfileId req = Some tid"
    and "fst (checkTechnicianActivation throws (Some tid) d)"
  shows
    "(isFinite (Number S (nr_latitude req)) \<and> isFinite (Number S (nr_longitude req)) \<longrightarrow>
        getNearbyJobs g acc S throws req d
          = nearby_search g acc S (nr_radius req) tid d
              (JNumber (Number S (nr_longitude req)), JNumber (Number S (nr_latitude req))))
     \<and> (\<not> (isFinite (Number S (nr_latitude req)) \<and> isFinite (Number S (nr_longitude req)))
         \<longrightarrow>
        (case stored_point (findById tid (profiles d)) of
           Some cs \<Rightarrow>
             getNearbyJobs g acc S throws req d
               = nearby_search g acc S (nr_radius req) tid d (element cs 0, element cs 1)
         | None \<Rightarrow>
             getNearbyJobs g acc S throws req d
               = (400, ''Location not found. Please provide latitude/longitude or update your profile location.'', [])))
     \<and> (fst (getNearbyJobs g acc S throws req d) = 400 \<longleftrightarrow>
          \<not> (isFinite (Number S (nr_latitude req)) \<and> isFinite (Number S (nr_longitude req)))
          \<and> stored_point (findById tid (profiles d)) = None)"
proof -
  have c: "fst (nearby_search g acc S (nr_radius req) tid d near) \<noteq> 400" for near
    using nearby_search_code[of g acc S "nr_radius req" tid d near] by auto
  show ?thesis
    using assms c unfolding getNearbyJobs_def resolve_location_def Let_def
    by (auto split: option.splits)
qed

lemma geo_active: "fst (checkTechnicianActivation False (Some 7) geo_db)"
  by (simp add: checkTechnicianActivation_def geo_db_def demo_db_def findOne_def)

lemma home_profiles:
  "profiles home_db = home_profile # tl (profiles demo_db)" "kycs home_db = kycs demo_db"
  by (simp_all add: home_db_def save_def geo_db_def demo_db_def home_profile_def)

lemma home_active: "fst (checkTechnicianActivation False (Some 7) home_db)"
  by (simp add: checkTechnicianActivation_def home_profiles home_profile_def demo_db_def
        findOne_def)

lemma home_point:
  "point_array (findById 7 (profiles home_db)) = Some [77, 13]"
  "stored_point (findById 7 (profiles home_db)) = Some [77, 13]"
  by (simp_all add: point_array_def stored_point_def findById_def findOne_def home_profiles
        home_profile_def)

lemma in_range_examples: "in_range [77, 13]" "in_range [0, 0]"
  by (simp_all add: in_range_def)

lemma home_sent: "sent_bookingIds 7 home_db = [1, 3, 4, 5]"
  by (simp add: sent_bookingIds_def findAll_def home_db_def save_def geo_db_def demo_db_def)

lemma home_bookings:
  "bookings home_db = bookings demo_db @ [requested_job, located_job, null_job]"
  by (simp add: home_db_def save_def geo_db_def)

lemma geo_sent: "sent_bookingIds 7 geo_db = [1, 3, 4]"
  by (simp add: sent_bookingIds_def findAll_def geo_db_def demo_db_def)

lemma geo_point: "stored_point (findById 7 (profiles geo_db)) = None"
  by (simp add: stored_point_def findById_def findOne_def geo_db_def demo_db_def)

lemma geo_bookings:
  "bookings geo_db = bookings demo_db @ [requested_job, located_job]"
  by (simp add: geo_db_def)

lemma blank_search_home:
  "geoNear flat_dist in_range (JNumber (Finite 0), JNumber (Finite 0)) (Finite 20000)
     (\<lambda>b. bk_id b \<in> set (sent_bookingIds 7 home_db) \<and> bk_status b = ''broadcasted''
           \<and> bk_technicianId b = None)
     (bookings home_db) = Some []"
  by (simp add: home_sent home_bookings demo_db_def requested_job_def
        located_job_def null_job_def flat_dist_def in_range_def)

lemma blank_search_geo:
  "geoNear flat_dist in_range (JNumber (Finite 0), JNumber (Finite 0)) (Finite 20000)
     (\<lambda>b. bk_id b \<in> set (sent_bookingIds 7 geo_db) \<and> bk_status b = ''broadcasted''
           \<and> bk_technicianId b = None)
     (bookings geo_db) = Some []"
  by (simp add: geo_sent geo_bookings demo_db_def requested_job_def
        located_job_def flat_dist_def in_range_def)

lemma stored_search_home:
  "geoNear flat_dist in_range (JNumber (Finite 77), JNumber (Finite 13)) (Finite 20000)
     (\<lambda>b. bk_id b \<in> set (sent_bookingIds 7 home_db) \<and> bk_status b = ''broadcasted''
           \<and> bk_technicianId b = None)
     (bookings home_db) = Some [(located_job, 0)]"
  by (simp add: home_sent home_bookings demo_db_def requested_job_def
        located_job_def null_job_def flat_dist_def in_range_def)

lemma blank_resolved:
  "resolve_location S (JString []) (JString []) p
     = Some (JNumber (Finite 0), JNumber (Finite 0))"
  by (simp add: resolve_location_def Let_def)

subsection \<open>C8: where the technician is\<close>

text \<open>
  Claim C8 says that the stored point of the technician is used when the caller supplies
  no explicit finite latitude and longitude, and that the reply is 400 when there is
  neither. The code tests \<open>Number(latitude)\<close> and \<open>Number(longitude)\<close>, and \<open>Number\<close>
  of an empty string is 0. Technician 7 calls with \<open>?latitude=&longitude=\<close>. With the
  point (77, 13) stored in the profile the search runs from (0, 0), whatever the geometry,
  and not from the stored point: in the example geometry the listing is empty, while the
  search from the stored point lists booking 4, which lies there, at distance 0. With no
  stored point the reply is 200 with an empty listing and not the 400 for an unknown
  location.
\<close>

theorem nearby_blank_coordinates:
  "stored_point (findById 7 (profiles home_db)) = Some [77, 13]
   \<and> getNearbyJobs g acc S False blank_req home_db
       = nearby_search g acc S JUndefined 7 home_db (JNumber (Finite 0), JNumber (Finite 0))
   \<and> getNearbyJobs flat_dist in_range nan_parser False blank_req home_db
       = (200, ''Nearby jobs fetched successfully'', [])
   \<and> nearby_search flat_dist in_range nan_parser JUndefined 7 home_db
         (element [77, 13] 0, element [77, 13] 1)
       = (200, ''Nearby jobs fetched successfully'', [(located_job, 0)])
   \<and> stored_point (findById 7 (profiles geo_db)) = None
   \<and> getNearbyJobs g acc S False blank_req geo_db
       = nearby_search g acc S JUndefined 7 geo_db (JNumber (Finite 0), JNumber (Finite 0))
   \<and> getNearbyJobs flat_dist in_range nan_parser False blank_req geo_db
       = (200, ''Nearby jobs fetched successfully'', [])"
proof -
  have a: "getNearbyJobs g acc S False blank_req d
       = nearby_search g acc S JUndefined 7 d (JNumber (Finite 0), JNumber (Finite 0))"
    if "fst (checkTechnicianActivation False (Some 7) d)" for d g acc S
    using that by (simp add: getNearbyJobs_def blank_req_def blank_resolved)
  have m: "maxDist nan_parser JUndefined = Finite 20000" by (simp add: maxDist_def)
  have h: "nearby_search flat_dist in_range nan_parser JUndefined 7 home_db
             (JNumber (Finite 0), JNumber (Finite 0))
           = (200, ''Nearby jobs fetched successfully'', [])"
    unfolding nearby_search_def Let_def m blank_search_home by (simp add: home_sent)
  have g: "nearby_search flat_dist in_range nan_parser JUndefined 7 geo_db
             (JNumber (Finite 0), JNumber (Finite 0))
           = (200, ''Nearby jobs fetched successfully'', [])"
    unfolding nearby_search_def Let_def m blank_search_geo by (simp add: geo_sent)
  have e: "(element [77, 13] 0, element [77, 13] 1)
           = (JNumber (Finite 77), JNumber (Finite 13))"
    by (simp add: element_def)
  have s: "nearby_search flat_dist in_range nan_parser JUndefined 7 home_db
             (element [77, 13] 0, element [77, 13] 1)
           = (200, ''Nearby jobs fetched successfully'', [(located_job, 0)])"
    unfolding e nearby_search_def Let_def m stored_search_home by (simp add: home_sent)
  show ?thesis
    using a[OF home_active] a[OF geo_active] h g s home_point(2) geo_point
    by simp
qed

subsection \<open>C9: the radius\<close>


lemma geoFilter_radius:
  "geoFilter cs (Some c) b
     = (case bk_location b of
          Absent \<Rightarrow> True
        | IsNull \<Rightarrow> False
        | Located loc \<Rightarrow> cs c (10000 / 6378100) loc)"
  by (simp add: geoFilter_def myJobs_radius_def split: location_field.splits)



subsection \<open>Candidate jobs\<close>

lemma sent_bookingIds_iff:
  "j \<in> set (sent_bookingIds tid d) \<longleftrightarrow>
     (\<exists>r\<in>set (broadcasts d). bc_bookingId r = j \<and> bc_technicianId r = tid
        \<and> bc_status r = ''sent'')"
  by (auto simp: sent_bookingIds_def findAll_def)

lemma getMyJobs_set:
  assumes "fst (checkTechnicianActivation throws (Some tid) d)"
    and "case point_array (findById tid (profiles d)) of None \<Rightarrow> True | Some c \<Rightarrow> acc c"
  shows "fst (getMyJobs cs acc throws (Some tid) d) = 200
    \<and> set (snd (snd (getMyJobs cs acc throws (Some tid) d))) =
      {b \<in> set (bookings d).
         (\<exists>r\<in>set (broadcasts d). bc_bookingId r = bk_id b \<and> bc_technicianId r = tid
            \<and> bc_status r = ''sent'')
         \<and> bk_status b = ''broadcasted'' \<and> bk_technicianId b = None
         \<and> (case point_array (findById tid (profiles d)) of
               None \<Rightarrow> True
             | Some c \<Rightarrow>
                 (case bk_location b of
                    Absent \<Rightarrow> True
                  | IsNull \<Rightarrow> False
                  | Located loc \<Rightarrow> cs c (10000 / 6378100) loc))}"
proof (cases "point_array (findById tid (profiles d))")
  case None
  then show ?thesis
    using assms(1) unfolding getMyJobs_def Let_def
    by (auto simp: findAll_def sent_bookingIds_iff geoFilter_def)
next
  case (Some c)
  then have "acc c" using assms(2) by simp
  then show ?thesis
    using assms(1) Some unfolding getMyJobs_def Let_def
    by (auto simp: findAll_def sent_bookingIds_iff geoFilter_radius)
qed

lemma near_entry_set:
  "fst ` set (case bk_location b of
                Located loc \<Rightarrow> if q b \<and> g p loc \<le> m then [(b, g p loc)] else []
              | _ \<Rightarrow> [])
   = (if q b \<and> (\<exists>loc. bk_location b = Located loc \<and> g p loc \<le> m) then {b} else {})"
  by (cases "bk_location b") auto

lemma near_list_set:
  "fst ` set (concat (map (\<lambda>b. case bk_location b of
                              Located loc \<Rightarrow>
                                if q b \<and> g p loc \<le> m then [(b, g p loc)] else []
                            | _ \<Rightarrow> [])
                    docs))
   = {b \<in> set docs. q b \<and> (\<exists>loc. bk_location b = Located loc \<and> g p loc \<le> m)}"
proof (induction docs)
  case Nil
  then show ?case by simp
next
  case (Cons a docs)
  show ?case
    unfolding list.map concat.simps set_append image_Un Cons.IH near_entry_set
    by auto
qed

lemma geoNear_set:
  assumes "0 \<le> m" and "acc [lng, lat]"
  shows "\<exists>jobs. geoNear g acc (JNumber (Finite lng), JNumber (Finite lat)) (Finite m) q docs
                  = Some jobs
           \<and> fst ` set jobs
               = {b \<in> set docs. q b
                    \<and> (\<exists>loc. bk_location b = Located loc \<and> g (lng, lat) loc \<le> m)}"
  using assms near_list_set[of q g "(lng, lat)" m docs] by simp

lemma nearby_search_set:
  assumes "0 \<le> m" and "maxDist S radius = Finite m" and "acc [lng, lat]"
  shows "fst ` set (snd (snd (nearby_search g acc S radius tid d
                               (JNumber (Finite lng), JNumber (Finite lat))))) =
      {b \<in> set (bookings d).
         (\<exists>r\<in>set (broadcasts d). bc_bookingId r = bk_id b \<and> bc_technicianId r = tid
            \<and> bc_status r = ''sent'')
         \<and> bk_status b = ''broadcasted'' \<and> bk_technicianId b = None
         \<and> (\<exists>loc. bk_location b = Located loc \<and> g (lng, lat) loc \<le> m)}"
proof (cases "sent_bookingIds tid d = []")
  case True
  then have "\<not> (\<exists>r\<in>set (broadcasts d). bc_bookingId r = j \<and> bc_technicianId r = tid
            \<and> bc_status r = ''sent'')" for j
    using sent_bookingIds_iff[of j tid d] by simp
  then show ?thesis using True by (simp add: nearby_search_def)
next
  case False
  let ?q = "\<lambda>b. bk_id b \<in> set (sent_bookingIds tid d) \<and> bk_status b = ''broadcasted''
                     \<and> bk_technicianId b = None"
  from geoNear_set[of m acc lng lat g ?q "bookings d", OF assms(1,3)] obtain jobs where
    j: "geoNear g acc (JNumber (Finite lng), JNumber (Finite lat)) (Finite m) ?q (bookings d)
          = Some jobs"
       "fst ` set jobs = {b \<in> set (bookings d). ?q b
            \<and> (\<exists>loc. bk_location b = Located loc \<and> g (lng, lat) loc \<le> m)}"
    by blast
  have "snd (snd (nearby_search g acc S radius tid d
                    (JNumber (Finite lng), JNumber (Finite lat))))
        = sort_key snd jobs"
    using False j(1) assms(2) by (simp add: nearby_search_def Let_def)
  then show ?thesis using j(2) by (auto simp: sent_bookingIds_iff)
qed

lemma geo_no_point: "point_array (findById 7 (profiles geo_db)) = None"
  by (simp add: point_array_def findById_def findOne_def geo_db_def demo_db_def)

lemma requested_job_facts:
  "requested_job \<in> set (bookings geo_db) \<and> bk_status requested_job = ''requested''
   \<and> bk_technicianId requested_job = None \<and> bk_location requested_job = Absent"
  by (simp add: geo_db_def requested_job_def)

lemma requested_job_not_listed:
  "requested_job \<notin> set (snd (snd (getMyJobs flat_within in_range False (Some 7) geo_db)))"
proof -
  have "case point_array (findById 7 (profiles geo_db)) of None \<Rightarrow> True
        | Some c \<Rightarrow> in_range c"
    by (simp add: geo_no_point)
  from getMyJobs_set[OF geo_active this, of flat_within]
  show ?thesis by (simp add: requested_job_def)
qed

lemma nearby_req_resolved:
  "nr_technicianProfileId nearby_req = Some 7
   \<and> resolve_location nan_parser (nr_latitude nearby_req) (nr_longitude nearby_req) p
       = Some (JNumber (Finite 77), JNumber (Finite 13))
   \<and> maxDist nan_parser (nr_radius nearby_req) = Finite 20000 \<and> (0::real) \<le> 20000"
  by (simp add: nearby_req_def resolve_location_def maxDist_def Let_def)

lemma requested_job_not_nearby:
  "requested_job
     \<notin> fst ` set (snd (snd (getNearbyJobs flat_dist in_range nan_parser False nearby_req
                               geo_db)))"
proof -
  have "getNearbyJobs flat_dist in_range nan_parser False nearby_req geo_db
        = nearby_search flat_dist in_range nan_parser (nr_radius nearby_req) 7 geo_db
            (JNumber (Finite 77), JNumber (Finite 13))"
    using geo_active nearby_req_resolved by (simp add: getNearbyJobs_def)
  then show ?thesis
    using nearby_search_set[of 20000 nan_parser "nr_radius nearby_req" in_range 77 13
        flat_dist 7 geo_db]
      nearby_req_resolved in_range_examples(1)
    by (simp add: requested_job_def)
qed

subsection \<open>C5: the jobs a technician is shown\<close>

text \<open>
  Claim C5 says that the selection returns the jobs with status \<open>broadcasted\<close> or
  \<open>requested\<close> and that a job without a location is always included. Booking 3 is
  requested, unassigned, has no location and was sent to technician 7; neither
  \<open>getMyJobs\<close> nor \<open>getNearbyJobs\<close> lists it.
\<close>

theorem candidate_jobs_counterexample:
  "requested_job \<in> set (bookings geo_db) \<and> bk_status requested_job = ''requested''
   \<and> bk_technicianId requested_job = None \<and> bk_location requested_job = Absent
   \<and> requested_job \<notin> set (snd (snd (getMyJobs flat_within in_range False (Some 7) geo_db)))
   \<and> requested_job
       \<notin> fst ` set (snd (snd (getNearbyJobs flat_dist in_range nan_parser False nearby_req
                                 geo_db)))"
  using requested_job_facts requested_job_not_listed requested_job_not_nearby by blast

text \<open>
  Claim C5, amended. For an activated technician whose stored point, if there is one, the
  server accepts, \<open>getMyJobs\<close> replies 200 and returns exactly the bookings that have a
  \<open>sent\<close> broadcast for the technician, have status \<open>broadcasted\<close>, are unassigned and,
  when the technician has a stored point, either have no location field or have a
  location within the sphere of 10000 / 6378100 radians around it; a booking stored with
  \<open>location: null\<close> has the field and is then not returned. \<open>getNearbyJobs\<close>,
  searching from a finite position that the server accepts with a finite distance that
  is not negative, lists only bookings that have a \<open>sent\<close> broadcast for the technician,
  have status \<open>broadcasted\<close> and are unassigned, none with a location farther away
  than the distance, and it lists every such booking whose location is within the
  distance.
\<close>

theorem candidate_jobs:
  assumes "fst (checkTechnicianActivation throws (Some tid) d)"
  shows
    "((case point_array (findById tid (profiles d)) of None \<Rightarrow> True | Some c \<Rightarrow> acc c)
        \<longrightarrow>
        fst (getMyJobs cs acc throws (Some tid) d) = 200
        \<and> set (snd (snd (getMyJobs cs acc throws (Some tid) d))) =
          {b \<in> set (bookings d).
             (\<exists>r\<in>set (broadcasts d). bc_bookingId r = bk_id b \<and> bc_technicianId r = tid
                \<and> bc_status r = ''sent'')
             \<and> bk_status b = ''broadcasted'' \<and> bk_technicianId b = None
             \<and> (case point_array (findById tid (profiles d)) of
                   None \<Rightarrow> True
                 | Some c \<Rightarrow>
                     (case bk_location b of
                        Absent \<Rightarrow> True
                      | IsNull \<Rightarrow> False
                      | Located loc \<Rightarrow> cs c (10000 / 6378100) loc))})
     \<and> (nr_technicianProfileId req = Some tid
         \<and> resolve_location S (nr_latitude req) (nr_longitude req) (findById tid (profiles d))
             = Some (JNumber (Finite lng), JNumber (Finite lat))
         \<and> maxDist S (nr_radius req) = Finite m \<and> 0 \<le> m \<and> acc [lng, lat] \<longrightarrow>
         (\<forall>b\<in>fst ` set (snd (snd (getNearbyJobs g acc S throws req d))).
            b \<in> set (bookings d)
            \<and> (\<exists>r\<in>set (broadcasts d). bc_bookingId r = bk_id b \<and> bc_technicianId r = tid
                  \<and> bc_status r = ''sent'')
            \<and> bk_status b = ''broadcasted'' \<and> bk_technicianId b = None
            \<and> (\<forall>loc. bk_location b = Located loc \<longrightarrow> g (lng, lat) loc \<le> m))
         \<and> (\<forall>b\<in>set (bookings d).
               (\<exists>r\<in>set (broadcasts d). bc_bookingId r = bk_id b \<and> bc_technicianId r = tid
                  \<and> bc_status r = ''sent'')
               \<and> bk_status b = ''broadcasted'' \<and> bk_technicianId b = None
               \<and> (\<exists>loc. bk_location b = Located loc \<and> g (lng, lat) loc \<le> m) \<longrightarrow>
               b \<in> fst ` set (snd (snd (getNearbyJobs g acc S throws req d)))))"
proof (intro conjI impI)
  assume "case point_array (findById tid (profiles d)) of None \<Rightarrow> True | Some c \<Rightarrow> acc c"
  from getMyJobs_set[OF assms this, of cs]
  show "fst (getMyJobs cs acc throws (Some tid) d) = 200"
    and "set (snd (snd (getMyJobs cs acc throws (Some tid) d))) =
          {b \<in> set (bookings d).
             (\<exists>r\<in>set (broadcasts d). bc_bookingId r = bk_id b \<and> bc_technicianId r = tid
                \<and> bc_status r = ''sent'')
             \<and> bk_status b = ''broadcasted'' \<and> bk_technicianId b = None
             \<and> (case point_array (findById tid (profiles d)) of
                   None \<Rightarrow> True
                 | Some c \<Rightarrow>
                     (case bk_location b of
                        Absent \<Rightarrow> True
                      | IsNull \<Rightarrow> False
                      | Located loc \<Rightarrow> cs c (10000 / 6378100) loc))}"
    by blast+
next
  assume h: "nr_technicianProfileId req = Some tid
         \<and> resolve_location S (nr_latitude req) (nr_longitude req) (findById tid (profiles d))
             = Some (JNumber (Finite lng), JNumber (Finite lat))
         \<and> maxDist S (nr_radius req) = Finite m \<and> 0 \<le> m \<and> acc [lng, lat]"
  then have "getNearbyJobs g acc S throws req d
             = nearby_search g acc S (nr_radius req) tid d
                 (JNumber (Finite lng), JNumber (Finite lat))"
    using assms by (simp add: getNearbyJobs_def)
  then have e: "fst ` set (snd (snd (getNearbyJobs g acc S throws req d))) =
           {b \<in> set (bookings d).
              (\<exists>r\<in>set (broadcasts d). bc_bookingId r = bk_id b \<and> bc_technicianId r = tid
                 \<and> bc_status r = ''sent'')
              \<and> bk_status b = ''broadcasted'' \<and> bk_technicianId b = None
              \<and> (\<exists>loc. bk_location b = Located loc \<and> g (lng, lat) loc \<le> m)}"
    using nearby_search_set[of m S "nr_radius req" acc lng lat g tid d] h by simp
  show "\<forall>b\<in>fst ` set (snd (snd (getNearbyJobs g acc S throws req d))).
            b \<in> set (bookings d)
            \<and> (\<exists>r\<in>set (broadcasts d). bc_bookingId r = bk_id b \<and> bc_technicianId r = tid
                  \<and> bc_status r = ''sent'')
            \<and> bk_status b = ''broadcasted'' \<and> bk_technicianId b = None
            \<and> (\<forall>loc. bk_location b = Located loc \<longrightarrow> g (lng, lat) loc \<le> m)"
    unfolding e by auto
  show "\<forall>b\<in>set (bookings d).
               (\<exists>r\<in>set (broadcasts d). bc_bookingId r = bk_id b \<and> bc_technicianId r = tid
                  \<and> bc_status r = ''sent'')
               \<and> bk_status b = ''broadcasted'' \<and> bk_technicianId b = None
               \<and> (\<exists>loc. bk_location b = Located loc \<and> g (lng, lat) loc \<le> m) \<longrightarrow>
               b \<in> fst ` set (snd (snd (getNearbyJobs g acc S throws req d)))"
    unfolding e by auto
qed

lemma home_sent_row:
  "\<exists>r\<in>set (broadcasts home_db). bc_bookingId r = j \<and> bc_technicianId r = 7
      \<and> bc_status r = ''sent''" if "j \<in> {1, 3, 4, 5}" for j :: nat
  using that sent_bookingIds_iff[of j 7 home_db] by (simp add: home_sent)

lemma located_job_candidate:
  "located_job \<in> set (bookings home_db)
   \<and> (\<exists>r\<in>set (broadcasts home_db). bc_bookingId r = bk_id located_job
         \<and> bc_technicianId r = 7 \<and> bc_status r = ''sent'')
   \<and> bk_status located_job = ''broadcasted'' \<and> bk_technicianId located_job = None
   \<and> bk_location located_job = Located \<lparr>g_type = ''Point'', g_coordinates = Some [77, 13]\<rparr>
   \<and> flat_within [77, 13] (10000 / 6378100) \<lparr>g_type = ''Point'', g_coordinates = Some [77, 13]\<rparr>
   \<and> flat_dist (77, 13) \<lparr>g_type = ''Point'', g_coordinates = Some [77, 13]\<rparr> \<le> 20000"
  using home_sent_row[of 4]
  by (simp add: home_bookings located_job_def flat_within_def flat_dist_def)

lemma null_job_facts:
  "null_job \<in> set (bookings home_db)
   \<and> (\<exists>r\<in>set (broadcasts home_db). bc_bookingId r = bk_id null_job
         \<and> bc_technicianId r = 7 \<and> bc_status r = ''sent'')
   \<and> bk_status null_job = ''broadcasted'' \<and> bk_technicianId null_job = None
   \<and> bk_location null_job = IsNull"
  using home_sent_row[of 5] by (simp add: home_bookings null_job_def)

theorem candidate_jobs_witness:
  "fst (checkTechnicianActivation False (Some 7) home_db)
   \<and> point_array (findById 7 (profiles home_db)) = Some [77, 13] \<and> in_range [77, 13]
   \<and> nr_technicianProfileId nearby_req = Some 7
   \<and> resolve_location nan_parser (nr_latitude nearby_req) (nr_longitude nearby_req)
        (findById 7 (profiles home_db)) = Some (JNumber (Finite 77), JNumber (Finite 13))
   \<and> maxDist nan_parser (nr_radius nearby_req) = Finite 20000 \<and> (0::real) \<le> 20000
   \<and> fst (getMyJobs flat_within in_range False (Some 7) home_db) = 200
   \<and> located_job \<in> set (snd (snd (getMyJobs flat_within in_range False (Some 7) home_db)))
   \<and> bk_location null_job = IsNull
   \<and> null_job \<notin> set (snd (snd (getMyJobs flat_within in_range False (Some 7) home_db)))
   \<and> located_job
       \<in> fst ` set (snd (snd (getNearbyJobs flat_dist in_range nan_parser False nearby_req
                                 home_db)))"
proof -
  note c = candidate_jobs[OF home_active, of in_range flat_within nearby_req nan_parser 77 13
      20000 flat_dist, unfolded home_point(1) option.case]
  have r: "in_range [77, 13]" by (rule in_range_examples(1))
  from c r have s: "fst (getMyJobs flat_within in_range False (Some 7) home_db) = 200"
    and e: "set (snd (snd (getMyJobs flat_within in_range False (Some 7) home_db))) =
          {b \<in> set (bookings home_db).
             (\<exists>r\<in>set (broadcasts home_db). bc_bookingId r = bk_id b \<and> bc_technicianId r = 7
                \<and> bc_status r = ''sent'')
             \<and> bk_status b = ''broadcasted'' \<and> bk_technicianId b = None
             \<and> (case bk_location b of
                  Absent \<Rightarrow> True
                | IsNull \<Rightarrow> False
                | Located loc \<Rightarrow> flat_within [77, 13] (10000 / 6378100) loc)}"
    by blast+
  have a: "located_job \<in> set (snd (snd (getMyJobs flat_within in_range False (Some 7) home_db)))"
    unfolding e using located_job_candidate by simp
  have n: "null_job \<notin> set (snd (snd (getMyJobs flat_within in_range False (Some 7) home_db)))"
    unfolding e using null_job_facts by simp
  from c nearby_req_resolved[of "findById 7 (profiles home_db)"] r
  have b: "located_job
       \<in> fst ` set (snd (snd (getNearbyJobs flat_dist in_range nan_parser False nearby_req
                                 home_db)))"
    using located_job_candidate by blast
  show ?thesis
    using a b n s r home_active home_point(1) null_job_facts
      nearby_req_resolved[of "findById 7 (profiles home_db)"] by blast
qed


subsection \<open>The ledger under recordBroadcast\<close>

lemma sent_count_recordBroadcast1:
  "sent_count j t (recordBroadcast1 j t' rows)
   = (if t' = t \<and> sent_count j t rows = 0 then 1 else sent_count j t rows)"
proof (cases "findOne (is_sent_to j t') rows = None")
  case True
  then have n: "filter (is_sent_to j t') rows = []"
    by (auto simp: findOne_def find_None_iff filter_empty_conv)
  have r: "recordBroadcast1 j t' rows
           = rows @ [\<lparr>bc_bookingId = j, bc_technicianId = t', bc_status = ''sent''\<rparr>]"
    using True by (simp add: recordBroadcast1_def)
  show ?thesis
  proof (cases "t' = t")
    case True
    then show ?thesis using n unfolding r sent_count_def by (simp add: is_sent_to_def)
  next
    case False
    then show ?thesis unfolding r sent_count_def by (simp add: is_sent_to_def)
  qed
next
  case False
  then have r: "recordBroadcast1 j t' rows = rows" by (simp add: recordBroadcast1_def)
  from False obtain x where "x \<in> set rows" "is_sent_to j t' x"
    by (auto simp: findOne_def find_None_iff)
  then have "filter (is_sent_to j t') rows \<noteq> []" by (auto simp: filter_empty_conv)
  then have "t' = t \<Longrightarrow> sent_count j t rows \<noteq> 0" by (simp add: sent_count_def)
  then show ?thesis unfolding r by auto
qed

lemma sent_count_fold:
  "sent_count j t (fold (recordBroadcast1 j) ts rows)
   = (if t \<in> set ts \<and> sent_count j t rows = 0 then 1 else sent_count j t rows)"
proof (induction ts arbitrary: rows)
  case Nil
  then show ?case by simp
next
  case (Cons a ts)
  let ?c = "sent_count j t rows"
  let ?c1 = "sent_count j t (recordBroadcast1 j a rows)"
  have s: "?c1 = (if a = t \<and> ?c = 0 then 1 else ?c)"
    by (rule sent_count_recordBroadcast1)
  have "sent_count j t (fold (recordBroadcast1 j) (a # ts) rows)
        = (if t \<in> set ts \<and> ?c1 = 0 then 1 else ?c1)"
    using Cons.IH[of "recordBroadcast1 j a rows"] by simp
  also have "\<dots> = (if t \<in> set (a # ts) \<and> ?c = 0 then 1 else ?c)"
    unfolding s by (cases "a = t"; cases "?c = 0"; cases "t \<in> set ts") simp_all
  finally show ?case .
qed

lemma recordBroadcast1_present:
  "findOne (is_sent_to j t) rows \<noteq> None \<Longrightarrow> recordBroadcast1 j t rows = rows"
  by (simp add: recordBroadcast1_def)

lemma recordBroadcast1_keeps_sent:
  "findOne (is_sent_to j t) rows \<noteq> None \<Longrightarrow>
   findOne (is_sent_to j t) (recordBroadcast1 j t' rows) \<noteq> None"
  by (auto simp: recordBroadcast1_def findOne_def find_None_iff)

lemma recordBroadcast1_makes_sent:
  "findOne (is_sent_to j t) (recordBroadcast1 j t rows) \<noteq> None"
proof (cases "findOne (is_sent_to j t) rows = None")
  case True
  have "is_sent_to j t \<lparr>bc_bookingId = j, bc_technicianId = t, bc_status = ''sent''\<rparr>"
    by (simp add: is_sent_to_def)
  then have "\<exists>x\<in>set (rows @ [\<lparr>bc_bookingId = j, bc_technicianId = t, bc_status = ''sent''\<rparr>]).
               is_sent_to j t x"
    by simp
  then show ?thesis
    using True unfolding recordBroadcast1_def findOne_def find_None_iff by (simp only: if_False simp_thms) blast
next
  case False
  then show ?thesis by (simp add: recordBroadcast1_def)
qed

lemma fold_keeps_sent:
  "findOne (is_sent_to j t) rows \<noteq> None \<Longrightarrow>
   findOne (is_sent_to j t) (fold (recordBroadcast1 j) ts rows) \<noteq> None"
proof (induction ts arbitrary: rows)
  case Nil
  then show ?case by simp
next
  case (Cons a ts)
  show ?case using Cons.IH[OF recordBroadcast1_keeps_sent[OF Cons.prems]] by simp
qed

lemma fold_fixed:
  "(\<forall>t\<in>set ts. findOne (is_sent_to j t) rows \<noteq> None) \<Longrightarrow>
   fold (recordBroadcast1 j) ts rows = rows"
  by (induction ts arbitrary: rows) (auto simp: recordBroadcast1_present)

lemma fold_all_sent:
  "t \<in> set ts \<Longrightarrow> findOne (is_sent_to j t) (fold (recordBroadcast1 j) ts rows) \<noteq> None"
proof (induction ts arbitrary: rows)
  case Nil
  then show ?case by simp
next
  case (Cons a ts)
  show ?case
  proof (cases "a = t")
    case True
    then show ?thesis using fold_keeps_sent[OF recordBroadcast1_makes_sent] by simp
  next
    case False
    then show ?thesis using Cons by simp
  qed
qed

lemma recordBroadcast_twice:
  "recordBroadcast j ts (recordBroadcast j ts d) = recordBroadcast j ts d"
  using fold_fixed[of ts j "fold (recordBroadcast1 j) ts (broadcasts d)"] fold_all_sent[of _ ts j]
  by (simp add: recordBroadcast_def)

subsection \<open>C6: recording a broadcast twice\<close>

text \<open>
  Claim C6. When the ledger holds at most one \<open>sent\<close> row for booking J and technician
  T, then after \<open>recordBroadcast\<close> for J with a list that names T it holds exactly one,
  after a second call still exactly one, and the second call changes nothing.
\<close>

theorem recordBroadcast_idempotent:
  assumes "length (sent_rows J T d) \<le> 1" and "T \<in> set ts"
  shows "length (sent_rows J T (recordBroadcast J ts d)) = 1
         \<and> length (sent_rows J T (recordBroadcast J ts (recordBroadcast J ts d))) = 1
         \<and> recordBroadcast J ts (recordBroadcast J ts d) = recordBroadcast J ts d"
proof -
  have c: "length (sent_rows J T x) = sent_count J T (broadcasts x)" for x
    by (simp add: sent_rows_def sent_count_def)
  have "sent_count J T (broadcasts d) \<le> 1" using assms(1) c by simp
  then have "sent_count J T (fold (recordBroadcast1 J) ts (broadcasts d)) = 1"
    unfolding sent_count_fold using assms(2) by simp
  then have "length (sent_rows J T (recordBroadcast J ts d)) = 1"
    unfolding c by (simp add: recordBroadcast_def)
  then show ?thesis by (simp add: recordBroadcast_twice)
qed

theorem recordBroadcast_idempotent_witness:
  "length (sent_rows 1 9 demo_db) \<le> 1 \<and> (9::nat) \<in> set [9]
   \<and> length (sent_rows 1 9 (recordBroadcast 1 [9] (recordBroadcast 1 [9] demo_db))) = 1"
proof -
  have h: "length (sent_rows 1 9 demo_db) \<le> 1"
    by (simp add: sent_rows_def demo_db_def is_sent_to_def)
  have m: "(9::nat) \<in> set [9]" by simp
  show ?thesis using recordBroadcast_idempotent[OF h m] h m by blast
qed

end
